theory Spec2Isabelle
  imports Main "HOL-Library.Word"
begin

section \<open>Errors\<close>

text \<open>
  The error classes of \<open>shared/errors\<close> that the auth core raises. \<open>GenericError\<close>
  is a plain JavaScript \<open>Error\<close> (raised by the email service, the OAuth adapter and
  the password hasher). \<open>AuthenticationError\<close> carries its message, because the
  orchestrator raises it with several different ones.
\<close>

datatype error =
    ValidationError
  | ConflictError
  | AuthenticationError string
  | NotFoundError
  | InvalidTokenError
  | TokenExpiredError
  | AccountLockedError
  | RateLimitError
  | DatabaseError
  | UniqueConstraintError
  | GenericError

section \<open>Characters and strings\<close>

text \<open>
  JavaScript strings are modelled as \<open>string\<close>, restricted to ASCII. The character
  classes are the ones the source's regular expressions name.
\<close>

definition isUpperAZ :: "char \<Rightarrow> bool" where
  "isUpperAZ c = (65 \<le> (of_char c :: nat) \<and> (of_char c :: nat) \<le> 90)"

definition isLowerAZ :: "char \<Rightarrow> bool" where
  "isLowerAZ c = (97 \<le> (of_char c :: nat) \<and> (of_char c :: nat) \<le> 122)"

definition isDigit :: "char \<Rightarrow> bool" where
  "isDigit c = (48 \<le> (of_char c :: nat) \<and> (of_char c :: nat) \<le> 57)"

section \<open>Credential hasher (password.service.ts)\<close>

record passwordServiceConfig =
  minLength :: nat
  requireUppercase :: bool
  requireLowercase :: bool
  requireNumbers :: bool
  requireSpecialChars :: bool

text \<open>The defaults the constructor applies when no configuration is injected.\<close>

definition defaultPasswordConfig :: passwordServiceConfig where
  "defaultPasswordConfig =
     \<lparr> minLength = 8, requireUppercase = True, requireLowercase = True,
       requireNumbers = True, requireSpecialChars = False \<rparr>"

text \<open>\<open>/[A-Z]/\<close>, \<open>/[a-z]/\<close> and \<open>/\d/\<close> tested against the password.\<close>

definition hasUppercase :: "string \<Rightarrow> bool" where
  "hasUppercase password = list_ex isUpperAZ password"

definition hasLowercase :: "string \<Rightarrow> bool" where
  "hasLowercase password = list_ex isLowerAZ password"

definition hasNumber :: "string \<Rightarrow> bool" where
  "hasNumber password = list_ex isDigit password"

text \<open>The character class of \<open>hasSpecialChar\<close>, written out.\<close>

definition specialChars :: string where
  "specialChars =
     [CHR ''!'', CHR ''@'', CHR ''#'', CHR ''$'', CHR ''%'', CHR ''^'', CHR ''&'', CHR ''*'',
      CHR ''('', CHR '')'', CHR ''_'', CHR ''+'', CHR ''-'', CHR ''='', CHR ''['', CHR '']'',
      CHR ''{'', CHR ''}'', CHR '';'', CHR 0x27, CHR '':'', CHR 0x22, CHR 0x5C, CHR ''|'',
      CHR '','', CHR ''.'', CHR ''<'', CHR ''>'', CHR ''/'', CHR ''?'']"

definition hasSpecialChar :: "string \<Rightarrow> bool" where
  "hasSpecialChar password = list_ex (\<lambda>c. c \<in> set specialChars) password"

definition charset :: string where
  "charset = ''abcdefghijklmnopqrstuvwxyzABCDEFGHIJKLMNOPQRSTUVWXYZ0123456789!@#$%^&*''"

text \<open>
  \<open>password.slice(0, -1) + c\<close>: everything but the last character, then \<open>c\<close>.
\<close>

definition replaceLast :: "string \<Rightarrow> char \<Rightarrow> string" where
  "replaceLast password c = butlast password @ [c]"

text \<open>
  \<open>generateTemporaryPassword\<close>. The twelve bytes of \<open>randomBytes(12)\<close> are the
  parameter \<open>randomBytesBuffer\<close>, read at the indices 0 to 11 as the loop does. The four
  adjustments run in the source's order, each on the result of the one before.
\<close>

definition generateTemporaryPassword ::
  "passwordServiceConfig \<Rightarrow> (nat \<Rightarrow> 8 word) \<Rightarrow> string" where
  "generateTemporaryPassword config randomBytesBuffer =
     (let p0 = map (\<lambda>i. charset ! (unat (randomBytesBuffer i) mod length charset)) [0..<12];
          p1 = (if \<not> hasUppercase p0 then replaceLast p0 (CHR ''A'') else p0);
          p2 = (if \<not> hasLowercase p1 then replaceLast p1 (CHR ''a'') else p1);
          p3 = (if \<not> hasNumber p2 then replaceLast p2 (CHR ''1'') else p2);
          p4 = (if requireSpecialChars config \<and> \<not> hasSpecialChar p3
                then replaceLast p3 (CHR ''!'') else p3)
      in p4)"

text \<open>
  \<open>verify(hash, password)\<close>. The argon2 binding is outside the repository: its
  \<open>verify\<close> and \<open>needsRehash\<close> are parameters, and \<open>None\<close> is the binding throwing
  (which it does on a hash that is not a well-formed encoding). The body of the source's
  \<open>try\<close> is \<open>verify_body\<close>, where \<open>Inl\<close> is an exception on its way to the
  \<open>catch\<close>; \<open>verify\<close> is the whole method, \<open>catch\<close> included.
\<close>

definition verify_body ::
  "(string \<Rightarrow> string \<Rightarrow> bool option) \<Rightarrow> (string \<Rightarrow> bool option) \<Rightarrow>
     string \<Rightarrow> string \<Rightarrow> error + bool" where
  "verify_body argon2_verify argon2_needsRehash hash password =
     (if hash = [] \<or> password = [] then Inr False
      else case argon2_verify hash password of
             None \<Rightarrow> Inl GenericError
           | Some isValid \<Rightarrow>
               (if isValid
                then (case argon2_needsRehash hash of
                        None \<Rightarrow> Inl GenericError
                      | Some _ \<Rightarrow> Inr isValid)
                else Inr isValid))"

definition verify ::
  "(string \<Rightarrow> string \<Rightarrow> bool option) \<Rightarrow> (string \<Rightarrow> bool option) \<Rightarrow>
     string \<Rightarrow> string \<Rightarrow> error + bool" where
  "verify argon2_verify argon2_needsRehash hash password =
     (case verify_body argon2_verify argon2_needsRehash hash password of
        Inl _ \<Rightarrow> Inr False
      | Inr isValid \<Rightarrow> Inr isValid)"

text \<open>\<open>compare(password, hash)\<close> is \<open>verify\<close> with the arguments swapped.\<close>

definition compare ::
  "(string \<Rightarrow> string \<Rightarrow> bool option) \<Rightarrow> (string \<Rightarrow> bool option) \<Rightarrow>
     string \<Rightarrow> string \<Rightarrow> error + bool" where
  "compare argon2_verify argon2_needsRehash password hash =
     verify argon2_verify argon2_needsRehash hash password"

section \<open>Fast key-value store\<close>

text \<open>
  The Redis server is an external collaborator. The model keeps, for every key, its value
  and the second at which it expires (\<open>None\<close>: no expiry). The clock is in whole seconds,
  the resolution of the commands the code uses (\<open>EXPIRE\<close>, \<open>TTL\<close>, \<open>SETEX\<close>), and
  JavaScript's \<open>Date.now()\<close> is the clock times 1000. A value written by \<open>INCR\<close> or
  \<open>SET\<close> with a number is \<open>RInt n\<close>, standing for the decimal string of \<open>n\<close>;
  \<open>RStr\<close> is text that \<open>parseInt\<close> reads as \<open>NaN\<close> (signed tokens), and
  \<open>RSession\<close> is the JSON of a session record. Connection failures are not modelled.
\<close>

datatype redis_value = RInt int | RStr string | RSession string string int

type_synonym redis = "string \<Rightarrow> (redis_value \<times> int option) option"

definition Date_now :: "int \<Rightarrow> int" where
  "Date_now clock = 1000 * clock"

definition redis_live :: "int \<Rightarrow> redis \<Rightarrow> string \<Rightarrow> (redis_value \<times> int option) option" where
  "redis_live now r key =
     (case r key of
        None \<Rightarrow> None
      | Some (v, None) \<Rightarrow> Some (v, None)
      | Some (v, Some t) \<Rightarrow> (if now < t then Some (v, Some t) else None))"

definition redis_get :: "int \<Rightarrow> redis \<Rightarrow> string \<Rightarrow> redis_value option" where
  "redis_get now r key = map_option fst (redis_live now r key)"

definition redis_exists :: "int \<Rightarrow> redis \<Rightarrow> string \<Rightarrow> int" where
  "redis_exists now r key = (case redis_live now r key of None \<Rightarrow> 0 | Some _ \<Rightarrow> 1)"

text \<open>\<open>TTL\<close>: -2 for a missing key, -1 for a key without expiry, else the seconds left.\<close>

definition redis_ttl :: "int \<Rightarrow> redis \<Rightarrow> string \<Rightarrow> int" where
  "redis_ttl now r key =
     (case redis_live now r key of
        None \<Rightarrow> - 2
      | Some (v, None) \<Rightarrow> - 1
      | Some (v, Some t) \<Rightarrow> t - now)"

text \<open>
  \<open>INCR\<close>: a missing key counts from 0 and gets no expiry, an existing integer keeps its
  expiry, and a value that is not an integer makes the command fail (\<open>None\<close>).
\<close>

definition redis_incr :: "int \<Rightarrow> redis \<Rightarrow> string \<Rightarrow> (int \<times> redis) option" where
  "redis_incr now r key =
     (case redis_live now r key of
        None \<Rightarrow> Some (1, r(key \<mapsto> (RInt 1, None)))
      | Some (RInt n, e) \<Rightarrow> Some (n + 1, r(key \<mapsto> (RInt (n + 1), e)))
      | Some (RStr s, e) \<Rightarrow> None
      | Some (RSession a b c, e) \<Rightarrow> None)"

definition redis_expire :: "int \<Rightarrow> redis \<Rightarrow> string \<Rightarrow> int \<Rightarrow> redis" where
  "redis_expire now r key seconds =
     (case redis_live now r key of
        None \<Rightarrow> r
      | Some (v, e) \<Rightarrow> r(key \<mapsto> (v, Some (now + seconds))))"

definition redis_setex :: "int \<Rightarrow> redis \<Rightarrow> string \<Rightarrow> int \<Rightarrow> redis_value \<Rightarrow> redis" where
  "redis_setex now r key seconds v = r(key \<mapsto> (v, Some (now + seconds)))"

definition redis_del :: "redis \<Rightarrow> string \<Rightarrow> redis" where
  "redis_del r key = r(key := None)"

text \<open>
  \<open>parseInt\<close> on a stored value; \<open>None\<close> is \<open>NaN\<close>, with which every comparison is
  false.
\<close>

fun parseInt :: "redis_value \<Rightarrow> int option" where
  "parseInt (RInt n) = Some n"
| "parseInt (RStr s) = None"
| "parseInt (RSession a b c) = None"

section \<open>Rate limiter (rate-limiter.service.ts)\<close>

definition MAX_LOGIN_ATTEMPTS :: int where
  "MAX_LOGIN_ATTEMPTS = 5"

definition LOGIN_WINDOW :: int where
  "LOGIN_WINDOW = 15 * 60"

definition EMAIL_RESEND_DELAY :: int where
  "EMAIL_RESEND_DELAY = 60"

text \<open>
  The result of \<open>checkLoginAttempts\<close>. \<open>attemptsRemaining\<close> is a JavaScript number:
  \<open>None\<close> is \<open>NaN\<close>. \<open>lockedUntil\<close> is a \<open>Date\<close>, in milliseconds.
\<close>

record loginAttemptsCheck =
  canAttempt :: bool
  attemptsRemaining :: "int option"
  lockedUntil :: "int option"

definition login_attempts_key :: "string \<Rightarrow> string" where
  "login_attempts_key userId = ''login_attempts:'' @ userId"

text \<open>\<open>parseInt(attempts || '0')\<close>: a missing key and the empty string both read as 0.\<close>

definition attemptCountOf :: "redis_value option \<Rightarrow> int option" where
  "attemptCountOf attempts =
     (case attempts of
        None \<Rightarrow> Some 0
      | Some v \<Rightarrow> (if v = RStr [] then Some 0 else parseInt v))"

definition checkLoginAttempts :: "int \<Rightarrow> redis \<Rightarrow> string \<Rightarrow> loginAttemptsCheck" where
  "checkLoginAttempts now r userId =
     (let key = login_attempts_key userId;
          attemptCount = attemptCountOf (redis_get now r key);
          allowed = \<lparr> canAttempt = True,
                      attemptsRemaining =
                        map_option (\<lambda>n. max 0 (MAX_LOGIN_ATTEMPTS - n)) attemptCount,
                      lockedUntil = None \<rparr>
      in case attemptCount of
           None \<Rightarrow> allowed
         | Some n \<Rightarrow>
             (if n \<ge> MAX_LOGIN_ATTEMPTS
              then (let ttl = redis_ttl now r key
                    in if ttl > 0
                       then \<lparr> canAttempt = False, attemptsRemaining = Some 0,
                              lockedUntil = Some (Date_now now + ttl * 1000) \<rparr>
                       else allowed)
              else allowed))"

text \<open>
  \<open>recordFailedLogin\<close>: \<open>INCR\<close>, then \<open>EXPIRE\<close> only when the counter is 1. A failing
  \<open>INCR\<close> rejects the promise with a plain error.
\<close>

definition recordFailedLogin :: "int \<Rightarrow> redis \<Rightarrow> string \<Rightarrow> error + redis" where
  "recordFailedLogin now r userId =
     (let key = login_attempts_key userId
      in case redis_incr now r key of
           None \<Rightarrow> Inl GenericError
         | Some (attempts, r') \<Rightarrow>
             Inr (if attempts = 1 then redis_expire now r' key LOGIN_WINDOW else r'))"

definition resetLoginAttempts :: "redis \<Rightarrow> string \<Rightarrow> redis" where
  "resetLoginAttempts r userId = redis_del r (login_attempts_key userId)"

record emailResendCheck =
  canResend :: bool
  nextAllowedAt :: "int option"

definition email_resend_key :: "string \<Rightarrow> string" where
  "email_resend_key userId = ''email_resend:'' @ userId"

text \<open>
  \<open>checkEmailResend\<close>. \<open>if (lastSent)\<close> holds for every stored value but the empty
  string; a value that is not a number makes \<open>timePassed\<close> \<open>NaN\<close>, the comparison false,
  and the call falls through to recording the attempt.
\<close>

definition checkEmailResend :: "int \<Rightarrow> redis \<Rightarrow> string \<Rightarrow> emailResendCheck \<times> redis" where
  "checkEmailResend now r userId =
     (let key = email_resend_key userId;
          recorded = (\<lparr> canResend = True, nextAllowedAt = None \<rparr>,
                      redis_setex now r key EMAIL_RESEND_DELAY (RInt (Date_now now)))
      in case redis_get now r key of
           None \<Rightarrow> recorded
         | Some v \<Rightarrow>
             (if v = RStr [] then recorded
              else case parseInt v of
                     None \<Rightarrow> recorded
                   | Some lastSent \<Rightarrow>
                       (if Date_now now - lastSent < EMAIL_RESEND_DELAY * 1000
                        then (\<lparr> canResend = False,
                                nextAllowedAt = Some (lastSent + EMAIL_RESEND_DELAY * 1000) \<rparr>, r)
                        else recorded)))"

text \<open>
  A run of failed logins for one identity, one \<open>recordFailedLogin\<close> at each of the given
  times, in order. It stops at the first call that fails.
\<close>

fun recordFailedLogins :: "redis \<Rightarrow> string \<Rightarrow> int list \<Rightarrow> error + redis" where
  "recordFailedLogins r userId [] = Inr r"
| "recordFailedLogins r userId (t # ts) =
     (case recordFailedLogin t r userId of
        Inl e \<Rightarrow> Inl e
      | Inr r' \<Rightarrow> recordFailedLogins r' userId ts)"

section \<open>Data model\<close>

datatype authProvider = Local | Google

text \<open>
  A row of the \<open>users\<close> table (\<open>users.table.ts\<close>). Nullable columns are options,
  timestamps are milliseconds. The primary key \<open>id\<close> is the field \<open>user_id\<close>.
\<close>

record user =
  user_id :: string
  email :: string
  firstName :: string
  lastName :: string
  password :: "string option"
  authProvider :: authProvider
  googleId :: "string option"
  profileImageUrl :: "string option"
  isEmailVerified :: bool
  emailVerificationToken :: "string option"
  emailVerificationExpires :: "int option"
  passwordResetToken :: "string option"
  passwordResetExpires :: "int option"
  passwordChangedAt :: "int option"
  refreshToken :: "string option"
  loginAttempts :: int
  lockedUntil_user :: "int option"
  lastLoginAt :: "int option"
  hasLoggedIn :: bool
  hasCompletedOnboarding :: bool
  onboardingStep :: "int option"
  createdAt :: int
  updatedAt :: int

text \<open>
  \<open>Partial<User>\<close> as the orchestrator and the OAuth adapter use it: for each column
  some caller writes, \<open>None\<close> leaves the column alone and \<open>Some v\<close> writes \<open>v\<close>
  (\<open>Some None\<close> writes \<open>null\<close>). No caller writes \<open>email\<close>, \<open>authProvider\<close>, the
  names or the onboarding columns through \<open>update\<close>.
\<close>

record userPatch =
  set_password :: "string option option"
  set_googleId :: "string option option"
  set_isEmailVerified :: "bool option"
  set_emailVerificationToken :: "string option option"
  set_emailVerificationExpires :: "int option option"
  set_passwordResetToken :: "string option option"
  set_passwordResetExpires :: "int option option"
  set_passwordChangedAt :: "int option option"
  set_refreshToken :: "string option option"
  set_loginAttempts :: "int option"
  set_lockedUntil :: "int option option"
  set_lastLoginAt :: "int option option"
  set_hasLoggedIn :: "bool option"

definition noPatch :: userPatch where
  "noPatch =
     \<lparr> set_password = None, set_googleId = None, set_isEmailVerified = None,
       set_emailVerificationToken = None, set_emailVerificationExpires = None,
       set_passwordResetToken = None, set_passwordResetExpires = None,
       set_passwordChangedAt = None, set_refreshToken = None, set_loginAttempts = None,
       set_lockedUntil = None, set_lastLoginAt = None, set_hasLoggedIn = None \<rparr>"

text \<open>\<open>NewUser\<close>: the columns the two creating callers supply; the rest take defaults.\<close>

record newUser =
  new_email :: string
  new_firstName :: string
  new_lastName :: string
  new_password :: "string option"
  new_authProvider :: authProvider
  new_googleId :: "string option"
  new_isEmailVerified :: bool
  new_emailVerificationToken :: "string option"
  new_emailVerificationExpires :: "int option"
  new_profileImageUrl :: "string option"

record googleProfile =
  g_id :: string
  g_email :: string
  g_emailVerified :: bool
  g_name :: string
  g_firstName :: string
  g_lastName :: string
  g_picture :: "string option"

text \<open>\<open>JwtPayload\<close> of \<open>auth.types.ts\<close>; a claim a token does not carry is \<open>None\<close>.\<close>

record jwtPayload =
  p_userId :: string
  p_email :: "string option"
  p_iat :: "int option"
  p_exp :: "int option"

text \<open>
  The content of a signed token once decoded: its claims, and the secret its signature
  was made with.
\<close>

record jwt =
  jwt_userId :: string
  jwt_email :: "string option"
  jwt_sessionId :: "string option"
  jwt_type :: "string option"
  jwt_iat :: "int option"
  jwt_exp :: "int option"
  jwt_iss :: "string option"
  jwt_aud :: "string option"
  jwt_signedWith :: string

datatype expiresIn = ExpNumber int | ExpString string

text \<open>The arguments of a call of \<open>jwt.sign(payload, secret, options)\<close>.\<close>

record signRequest =
  s_userId :: string
  s_email :: "string option"
  s_iat :: "int option"
  s_exp :: "int option"
  s_sessionId :: string
  s_type :: string
  s_secret :: string
  s_expiresIn :: expiresIn
  s_issuer :: string
  s_audience :: "string option"
  s_subject :: "string option"

record tokenServiceConfig =
  jwtAccessSecret :: string
  jwtRefreshSecret :: string
  jwtAccessExpiry :: string
  jwtRefreshExpiry :: string
  issuer :: string

datatype db_op =
    OpFindById | OpFindByEmail | OpCreate | OpUpdate
  | OpFindByEmailVerificationToken | OpFindByPasswordResetToken | OpFindByRefreshToken
  | OpIncrementLoginAttempts | OpLockAccount

text \<open>
  What one request gets from outside the repository: the clock (seconds), the secure
  random source (\<open>randomHex k\<close> is the \<open>k\<close>-th draw of \<open>randomBytes(32).toString('hex')\<close>
  in the request, \<open>uuid\<close> the key the database generates for an insert), SHA-256, the
  jsonwebtoken and argon2 libraries, Google's token exchange, and which database
  operations and whether the email provider fail during the request. For the libraries
  \<open>None\<close> is the call throwing.
\<close>

record env =
  clock :: int
  config :: tokenServiceConfig
  randomHex :: "nat \<Rightarrow> string"
  uuid :: string
  sha256 :: "string \<Rightarrow> string"
  jwt_sign :: "signRequest \<Rightarrow> string option"
  jwt_decode :: "string \<Rightarrow> jwt option"
  argon2_hash :: "string \<Rightarrow> string option"
  argon2_verify :: "string \<Rightarrow> string \<Rightarrow> bool option"
  argon2_needsRehash :: "string \<Rightarrow> bool option"
  google_exchange :: "string \<Rightarrow> googleProfile option"
  db_fails :: "db_op \<Rightarrow> bool"
  email_fails :: bool

text \<open>
  The state the auth core works on: the \<open>users\<close> table, the key-value store, the emails
  handed to the provider (template and recipient) and the lines written to the log.
\<close>

record state =
  users :: "user list"
  redis :: redis
  outbox :: "(string \<times> string) list"
  logs :: "string list"

section \<open>Token engine (token.service.ts)\<close>

text \<open>
  Expiry strings. \<open>allDigits\<close> is \<open>/^\d+$/\<close>, \<open>hasTimeUnit\<close> is \<open>/^\d+[smhdw]$/\<close>,
  \<open>parseDecimal\<close> is \<open>parseInt\<close> on a string of digits.
\<close>

definition allDigits :: "string \<Rightarrow> bool" where
  "allDigits s = (s \<noteq> [] \<and> list_all isDigit s)"

definition parseDecimal :: "string \<Rightarrow> int" where
  "parseDecimal s = foldl (\<lambda>n c. 10 * n + (int (of_char c) - 48)) 0 s"

definition isTimeUnit :: "char \<Rightarrow> bool" where
  "isTimeUnit c = (c \<in> set ''smhdw'')"

definition hasTimeUnit :: "string \<Rightarrow> bool" where
  "hasTimeUnit s = (s \<noteq> [] \<and> allDigits (butlast s) \<and> isTimeUnit (last s))"

definition unitSeconds :: "char \<Rightarrow> int" where
  "unitSeconds c =
     (if c = CHR ''s'' then 1 else if c = CHR ''m'' then 60 else if c = CHR ''h'' then 3600
      else if c = CHR ''d'' then 86400 else if c = CHR ''w'' then 604800 else 1)"

definition normalizeExpiry :: "string \<Rightarrow> expiresIn" where
  "normalizeExpiry expiry =
     (if allDigits expiry then ExpNumber (parseDecimal expiry)
      else if hasTimeUnit expiry then ExpString expiry
      else ExpString ''1h'')"

definition parseTimeToSeconds :: "string \<Rightarrow> int" where
  "parseTimeToSeconds time =
     (if allDigits time then parseDecimal time
      else if \<not> hasTimeUnit time then 3600
      else parseDecimal (butlast time) * unitSeconds (last time))"

definition BLACKLIST_PREFIX :: string where
  "BLACKLIST_PREFIX = ''token:blacklist:''"

definition REFRESH_PREFIX :: string where
  "REFRESH_PREFIX = ''token:refresh:''"

definition SESSION_PREFIX :: string where
  "SESSION_PREFIX = ''session:''"

definition hashToken :: "env \<Rightarrow> string \<Rightarrow> string" where
  "hashToken e token = sha256 e token"

text \<open>
  \<open>SETEX\<close> as the token engine uses it, fire-and-forget with a \<open>catch\<close> that logs: the
  server refuses an expiry that is not positive, and then only the log changes.
\<close>

definition setex_logged :: "env \<Rightarrow> state \<Rightarrow> string \<Rightarrow> int \<Rightarrow> redis_value \<Rightarrow> string \<Rightarrow> state" where
  "setex_logged e st key ttl v msg =
     (if ttl > 0 then st\<lparr> redis := redis_setex (clock e) (redis st) key ttl v \<rparr>
      else st\<lparr> logs := logs st @ [msg] \<rparr>)"

text \<open>
  \<open>generateAccessToken\<close> and \<open>generateRefreshToken\<close>; \<open>sessionId\<close> is the draw of
  \<open>generateSessionId\<close>. \<open>!payload.userId\<close> holds for the empty string.
\<close>

definition generateAccessToken ::
  "env \<Rightarrow> state \<Rightarrow> string \<Rightarrow> jwtPayload \<Rightarrow> (error + string) \<times> state" where
  "generateAccessToken e st sessionId payload =
     (if p_userId payload = [] then (Inl InvalidTokenError, st)
      else case jwt_sign e
                  \<lparr> s_userId = p_userId payload, s_email = p_email payload,
                    s_iat = p_iat payload, s_exp = p_exp payload,
                    s_sessionId = sessionId, s_type = ''access'',
                    s_secret = jwtAccessSecret (config e),
                    s_expiresIn = normalizeExpiry (jwtAccessExpiry (config e)),
                    s_issuer = issuer (config e), s_audience = Some ''kokoru-garden'',
                    s_subject = Some (p_userId payload) \<rparr> of
             None \<Rightarrow> (Inl GenericError, st)
           | Some token \<Rightarrow>
               (Inr token,
                setex_logged e st (SESSION_PREFIX @ sessionId)
                  (parseTimeToSeconds (jwtRefreshExpiry (config e)))
                  (RSession (p_userId payload) (case p_email payload of None \<Rightarrow> [] | Some a \<Rightarrow> a)
                     (Date_now (clock e)))
                  ''Failed to store session''))"

definition generateRefreshToken ::
  "env \<Rightarrow> state \<Rightarrow> string \<Rightarrow> jwtPayload \<Rightarrow> (error + string) \<times> state" where
  "generateRefreshToken e st sessionId payload =
     (if p_userId payload = [] then (Inl InvalidTokenError, st)
      else case jwt_sign e
                  \<lparr> s_userId = p_userId payload, s_email = None,
                    s_iat = None, s_exp = None,
                    s_sessionId = sessionId, s_type = ''refresh'',
                    s_secret = jwtRefreshSecret (config e),
                    s_expiresIn = normalizeExpiry (jwtRefreshExpiry (config e)),
                    s_issuer = issuer (config e), s_audience = None,
                    s_subject = None \<rparr> of
             None \<Rightarrow> (Inl GenericError, st)
           | Some token \<Rightarrow>
               (Inr token,
                setex_logged e st (REFRESH_PREFIX @ sessionId)
                  (parseTimeToSeconds (jwtRefreshExpiry (config e)))
                  (RStr token) ''Failed to store refresh token''))"

text \<open>
  The part of \<open>jwt.verify\<close>'s contract the token engine relies on (the jsonwebtoken
  library is outside the repository). A token that does not decode or whose signature
  was not made with \<open>secret\<close> is a \<open>JsonWebTokenError\<close>; then the expiry is checked
  against the clock, then the audience and the issuer when the caller asks for them.
\<close>

datatype jwt_failure = LibTokenExpiredError | LibJsonWebTokenError

definition jwt_verify ::
  "env \<Rightarrow> string \<Rightarrow> string \<Rightarrow> string \<Rightarrow> string option \<Rightarrow> jwt_failure + jwt" where
  "jwt_verify e token secret iss aud =
     (case jwt_decode e token of
        None \<Rightarrow> Inl LibJsonWebTokenError
      | Some j \<Rightarrow>
          (if jwt_signedWith j \<noteq> secret then Inl LibJsonWebTokenError
           else if (case jwt_exp j of None \<Rightarrow> False | Some x \<Rightarrow> clock e \<ge> x)
             then Inl LibTokenExpiredError
           else if (case aud of None \<Rightarrow> False | Some a \<Rightarrow> jwt_aud j \<noteq> Some a)
             then Inl LibJsonWebTokenError
           else if iss \<noteq> [] \<and> jwt_iss j \<noteq> Some iss then Inl LibJsonWebTokenError
           else Inr j))"

definition isTokenBlacklisted :: "env \<Rightarrow> redis \<Rightarrow> string \<Rightarrow> bool" where
  "isTokenBlacklisted e r token =
     (redis_exists (clock e) r (BLACKLIST_PREFIX @ hashToken e token) = 1)"

text \<open>
  \<open>verifyAccessToken\<close> returns the payload or raises; the second component is what the
  call writes to the log, including the warning of the blacklist lookup, whose promise
  resolves after the method has returned.
\<close>

definition verifyAccessToken ::
  "env \<Rightarrow> redis \<Rightarrow> string \<Rightarrow> (error + jwtPayload) \<times> string list" where
  "verifyAccessToken e r token =
     (case jwt_verify e token (jwtAccessSecret (config e)) (issuer (config e))
             (Some ''kokoru-garden'') of
        Inr decoded \<Rightarrow>
          (Inr \<lparr> p_userId = jwt_userId decoded, p_email = jwt_email decoded,
                 p_iat = jwt_iat decoded, p_exp = jwt_exp decoded \<rparr>,
           if isTokenBlacklisted e r token then [''Attempted to use blacklisted token''] else [])
      | Inl LibTokenExpiredError \<Rightarrow> (Inl TokenExpiredError, [])
      | Inl LibJsonWebTokenError \<Rightarrow> (Inl InvalidTokenError, []))"

definition verifyRefreshToken :: "env \<Rightarrow> string \<Rightarrow> error + jwtPayload" where
  "verifyRefreshToken e token =
     (case jwt_verify e token (jwtRefreshSecret (config e)) (issuer (config e)) None of
        Inr decoded \<Rightarrow>
          Inr \<lparr> p_userId = jwt_userId decoded, p_email = Some [],
                p_iat = jwt_iat decoded, p_exp = jwt_exp decoded \<rparr>
      | Inl LibTokenExpiredError \<Rightarrow> Inl TokenExpiredError
      | Inl LibJsonWebTokenError \<Rightarrow> Inl InvalidTokenError)"

text \<open>
  \<open>revokeToken\<close>: nothing happens for a token that does not decode, has no (or a zero)
  \<open>exp\<close>, or is already expired; otherwise the hash of the token is blacklisted for the
  rest of the token's life. The source's \<open>catch\<close> is for store failures.
\<close>

definition revokeToken :: "env \<Rightarrow> redis \<Rightarrow> string \<Rightarrow> redis" where
  "revokeToken e r token =
     (case jwt_decode e token of
        None \<Rightarrow> r
      | Some decoded \<Rightarrow>
          (case jwt_exp decoded of
             None \<Rightarrow> r
           | Some x \<Rightarrow>
               (if x = 0 then r
                else (let ttl = x - clock e
                      in if ttl \<le> 0 then r
                         else redis_setex (clock e) r (BLACKLIST_PREFIX @ hashToken e token)
                                ttl (RInt 1)))))"

section \<open>Identity store (user.repository.ts)\<close>

definition isHexDigit :: "char \<Rightarrow> bool" where
  "isHexDigit c =
     (isDigit c \<or> (97 \<le> (of_char c :: nat) \<and> (of_char c :: nat) \<le> 102)
      \<or> (65 \<le> (of_char c :: nat) \<and> (of_char c :: nat) \<le> 70))"

definition toLowerChar :: "char \<Rightarrow> char" where
  "toLowerChar c = (if isUpperAZ c then char_of ((of_char c :: nat) + 32) else c)"

definition toLowerCase :: "string \<Rightarrow> string" where
  "toLowerCase s = map toLowerChar s"

definition isSpace :: "char \<Rightarrow> bool" where
  "isSpace c = ((of_char c :: nat) = 32 \<or> (9 \<le> (of_char c :: nat) \<and> (of_char c :: nat) \<le> 13))"

definition trim :: "string \<Rightarrow> string" where
  "trim s = rev (dropWhile isSpace (rev (dropWhile isSpace s)))"

text \<open>
  The UUID pattern of \<open>validateUserId\<close>, case-insensitive: 36 characters, hyphens at
  the positions 8, 13, 18 and 23, a \<open>4\<close> at 14, one of \<open>8 9 a b\<close> at 19, hexadecimal
  digits elsewhere.
\<close>

definition uuidChar :: "nat \<Rightarrow> char \<Rightarrow> bool" where
  "uuidChar i c =
     (if i \<in> {8, 13, 18, 23} then c = CHR ''-''
      else if i = 14 then c = CHR ''4''
      else if i = 19 then toLowerChar c \<in> set ''89ab''
      else isHexDigit c)"

definition matchesUuid :: "string \<Rightarrow> bool" where
  "matchesUuid s = (length s = 36 \<and> list_all (\<lambda>(i, c). uuidChar i c) (zip [0..<36] s))"

definition validateUserId :: "string \<Rightarrow> error + string" where
  "validateUserId i =
     (if i = [] then Inl ValidationError
      else if \<not> matchesUuid i then Inl ValidationError
      else Inr (toLowerCase i))"

text \<open>
  The email pattern \<open>^[a-zA-Z0-9._%+-]+@[a-zA-Z0-9.-]+\.[a-zA-Z]{2,}$\<close>. Neither
  character class has \<open>@\<close>, so the local part is what precedes the first \<open>@\<close>; the
  last group has no dot, so it is what follows the last dot.
\<close>

definition isAlnum :: "char \<Rightarrow> bool" where
  "isAlnum c = (isLowerAZ c \<or> isUpperAZ c \<or> isDigit c)"

definition isLocalChar :: "char \<Rightarrow> bool" where
  "isLocalChar c = (isAlnum c \<or> c \<in> set ''._%+-'')"

definition isDomainChar :: "char \<Rightarrow> bool" where
  "isDomainChar c = (isAlnum c \<or> c \<in> set ''.-'')"

definition isAlpha :: "char \<Rightarrow> bool" where
  "isAlpha c = (isLowerAZ c \<or> isUpperAZ c)"

definition matchesEmail :: "string \<Rightarrow> bool" where
  "matchesEmail s =
     (let localPart = takeWhile (\<lambda>c. c \<noteq> CHR ''@'') s;
          rest = drop (length localPart) s
      in localPart \<noteq> [] \<and> list_all isLocalChar localPart \<and>
         (case rest of
            [] \<Rightarrow> False
          | at # domainPart \<Rightarrow>
              (let tld = rev (takeWhile (\<lambda>c. c \<noteq> CHR ''.'') (rev domainPart));
                   host = take (length domainPart - length tld - 1) domainPart
               in length tld < length domainPart \<and> 2 \<le> length tld \<and> list_all isAlpha tld \<and>
                  host \<noteq> [] \<and> list_all isDomainChar host)))"

definition validateEmail :: "string \<Rightarrow> error + string" where
  "validateEmail a =
     (if a = [] then Inl ValidationError
      else (let sanitizedEmail = trim (toLowerCase a)
            in if \<not> matchesEmail sanitizedEmail \<or> length sanitizedEmail > 255
               then Inl ValidationError
               else Inr sanitizedEmail))"

text \<open>
  The queries. Each runs against the table unless the environment makes the operation
  fail, which \<open>sanitizeError\<close> turns into a \<open>DatabaseError\<close>. \<open>.limit(1)\<close> takes the
  first matching row.
\<close>

definition findById :: "env \<Rightarrow> user list \<Rightarrow> string \<Rightarrow> error + user option" where
  "findById e us i =
     (case validateUserId i of
        Inl err \<Rightarrow> Inl err
      | Inr validatedId \<Rightarrow>
          (if db_fails e OpFindById then Inl DatabaseError
           else Inr (find (\<lambda>u. user_id u = validatedId) us)))"

definition findByEmail :: "env \<Rightarrow> user list \<Rightarrow> string \<Rightarrow> error + user option" where
  "findByEmail e us a =
     (case validateEmail a of
        Inl err \<Rightarrow> Inl err
      | Inr validatedEmail \<Rightarrow>
          (if db_fails e OpFindByEmail then Inl DatabaseError
           else Inr (find (\<lambda>u. email u = validatedEmail) us)))"

text \<open>\<open>gt(column, new Date())\<close> on a nullable timestamp: \<open>null\<close> never compares greater.\<close>

definition laterThan :: "int option \<Rightarrow> int \<Rightarrow> bool" where
  "laterThan t now = (case t of None \<Rightarrow> False | Some x \<Rightarrow> x > now)"

definition findByEmailVerificationToken :: "env \<Rightarrow> user list \<Rightarrow> string \<Rightarrow> error + user option" where
  "findByEmailVerificationToken e us hashedToken =
     (if hashedToken = [] then Inr None
      else if db_fails e OpFindByEmailVerificationToken then Inl DatabaseError
      else Inr (find (\<lambda>u. emailVerificationToken u = Some hashedToken
                            \<and> laterThan (emailVerificationExpires u) (Date_now (clock e))) us))"

definition findByPasswordResetToken :: "env \<Rightarrow> user list \<Rightarrow> string \<Rightarrow> error + user option" where
  "findByPasswordResetToken e us hashedToken =
     (if hashedToken = [] then Inr None
      else if db_fails e OpFindByPasswordResetToken then Inl DatabaseError
      else Inr (find (\<lambda>u. passwordResetToken u = Some hashedToken
                            \<and> laterThan (passwordResetExpires u) (Date_now (clock e))) us))"

definition findByRefreshToken :: "env \<Rightarrow> user list \<Rightarrow> string \<Rightarrow> error + user option" where
  "findByRefreshToken e us token =
     (if token = [] then Inr None
      else if db_fails e OpFindByRefreshToken then Inl DatabaseError
      else Inr (find (\<lambda>u. refreshToken u = Some token) us))"

text \<open>
  \<open>googleId.trim().substring(0, 100)\<close>, applied by \<open>create\<close> and \<open>update\<close> to a
  \<open>googleId\<close> that is neither \<open>null\<close> nor empty.
\<close>

definition sanitizeGoogleId :: "string option \<Rightarrow> string option" where
  "sanitizeGoogleId g =
     (case g of None \<Rightarrow> None | Some x \<Rightarrow> (if x = [] then Some x else Some (take 100 (trim x))))"

definition emailTaken :: "user list \<Rightarrow> string \<Rightarrow> bool" where
  "emailTaken us a = list_ex (\<lambda>u. email u = a) us"

text \<open>The unique index on \<open>google_id\<close>: \<open>null\<close> never collides.\<close>

definition googleIdTaken :: "user list \<Rightarrow> string option \<Rightarrow> bool" where
  "googleIdTaken us g =
     (case g of
        None \<Rightarrow> False
      | Some x \<Rightarrow> list_ex (\<lambda>u. googleId u = Some x) us)"

definition googleIdTakenByOther :: "user list \<Rightarrow> string \<Rightarrow> string option \<Rightarrow> bool" where
  "googleIdTakenByOther us rowId g =
     (case g of
        None \<Rightarrow> False
      | Some x \<Rightarrow> list_ex (\<lambda>u. user_id u \<noteq> rowId \<and> googleId u = Some x) us)"

text \<open>
  \<open>create\<close>: the row gets the key the database generates and the column defaults; a
  violated unique constraint (email, Google id, key) is a \<open>UniqueConstraintError\<close>.
\<close>

definition create :: "env \<Rightarrow> user list \<Rightarrow> newUser \<Rightarrow> error + (user \<times> user list)" where
  "create e us userData =
     (case (if new_email userData \<noteq> [] then validateEmail (new_email userData)
            else Inr (new_email userData)) of
        Inl err \<Rightarrow> Inl err
      | Inr validatedEmail \<Rightarrow>
          (let g = sanitizeGoogleId (new_googleId userData);
               row = \<lparr> user_id = uuid e, email = validatedEmail,
                       firstName = new_firstName userData, lastName = new_lastName userData,
                       password = new_password userData,
                       authProvider = new_authProvider userData,
                       googleId = g, profileImageUrl = new_profileImageUrl userData,
                       isEmailVerified = new_isEmailVerified userData,
                       emailVerificationToken = new_emailVerificationToken userData,
                       emailVerificationExpires = new_emailVerificationExpires userData,
                       passwordResetToken = None, passwordResetExpires = None,
                       passwordChangedAt = None, refreshToken = None, loginAttempts = 0,
                       lockedUntil_user = None, lastLoginAt = None, hasLoggedIn = False,
                       hasCompletedOnboarding = False, onboardingStep = Some 0,
                       createdAt = Date_now (clock e), updatedAt = Date_now (clock e) \<rparr>
           in if db_fails e OpCreate then Inl DatabaseError
              else if emailTaken us validatedEmail \<or> googleIdTaken us g
                      \<or> list_ex (\<lambda>u. user_id u = uuid e) us
                then Inl UniqueConstraintError
              else Inr (row, us @ [row])))"

definition applyPatch :: "int \<Rightarrow> userPatch \<Rightarrow> user \<Rightarrow> user" where
  "applyPatch now p u =
     u\<lparr> password := (case set_password p of None \<Rightarrow> password u | Some v \<Rightarrow> v),
        googleId := (case set_googleId p of None \<Rightarrow> googleId u | Some v \<Rightarrow> v),
        isEmailVerified :=
          (case set_isEmailVerified p of None \<Rightarrow> isEmailVerified u | Some v \<Rightarrow> v),
        emailVerificationToken :=
          (case set_emailVerificationToken p of
             None \<Rightarrow> emailVerificationToken u | Some v \<Rightarrow> v),
        emailVerificationExpires :=
          (case set_emailVerificationExpires p of
             None \<Rightarrow> emailVerificationExpires u | Some v \<Rightarrow> v),
        passwordResetToken :=
          (case set_passwordResetToken p of None \<Rightarrow> passwordResetToken u | Some v \<Rightarrow> v),
        passwordResetExpires :=
          (case set_passwordResetExpires p of None \<Rightarrow> passwordResetExpires u | Some v \<Rightarrow> v),
        passwordChangedAt :=
          (case set_passwordChangedAt p of None \<Rightarrow> passwordChangedAt u | Some v \<Rightarrow> v),
        refreshToken := (case set_refreshToken p of None \<Rightarrow> refreshToken u | Some v \<Rightarrow> v),
        loginAttempts := (case set_loginAttempts p of None \<Rightarrow> loginAttempts u | Some v \<Rightarrow> v),
        lockedUntil_user :=
          (case set_lockedUntil p of None \<Rightarrow> lockedUntil_user u | Some v \<Rightarrow> v),
        lastLoginAt := (case set_lastLoginAt p of None \<Rightarrow> lastLoginAt u | Some v \<Rightarrow> v),
        hasLoggedIn := (case set_hasLoggedIn p of None \<Rightarrow> hasLoggedIn u | Some v \<Rightarrow> v),
        updatedAt := now \<rparr>"

text \<open>
  \<open>update\<close> returns the updated row (\<open>null\<close> when no row has the key) and the table.
  Its doubled \<open>sanitizeError\<close> turns a unique-constraint violation into a
  \<open>DatabaseError\<close>.
\<close>

definition update ::
  "env \<Rightarrow> user list \<Rightarrow> string \<Rightarrow> userPatch \<Rightarrow> error + (user option \<times> user list)" where
  "update e us i patch =
     (case validateUserId i of
        Inl err \<Rightarrow> Inl err
      | Inr validatedId \<Rightarrow>
          (let cleanData = patch\<lparr> set_googleId := map_option sanitizeGoogleId (set_googleId patch) \<rparr>;
               us' = map (\<lambda>u. if user_id u = validatedId
                               then applyPatch (Date_now (clock e)) cleanData u else u) us
           in if db_fails e OpUpdate then Inl DatabaseError
              else if list_ex (\<lambda>u. user_id u = validatedId) us
                      \<and> (case set_googleId cleanData of
                            None \<Rightarrow> False
                          | Some g \<Rightarrow> googleIdTakenByOther us validatedId g)
                then Inl DatabaseError
              else Inr (find (\<lambda>u. user_id u = validatedId) us', us')))"

definition incrementLoginAttempts :: "env \<Rightarrow> user list \<Rightarrow> string \<Rightarrow> error + user list" where
  "incrementLoginAttempts e us i =
     (case validateUserId i of
        Inl err \<Rightarrow> Inl err
      | Inr validatedId \<Rightarrow>
          (if db_fails e OpIncrementLoginAttempts then Inl DatabaseError
           else Inr (map (\<lambda>u. if user_id u = validatedId
                               then u\<lparr> loginAttempts := loginAttempts u + 1,
                                       updatedAt := Date_now (clock e) \<rparr>
                               else u) us)))"

definition lockAccount :: "env \<Rightarrow> user list \<Rightarrow> string \<Rightarrow> int \<Rightarrow> error + user list" where
  "lockAccount e us i until =
     (case validateUserId i of
        Inl err \<Rightarrow> Inl err
      | Inr validatedId \<Rightarrow>
          (if db_fails e OpLockAccount then Inl DatabaseError
           else Inr (map (\<lambda>u. if user_id u = validatedId
                               then u\<lparr> lockedUntil_user := Some until,
                                       updatedAt := Date_now (clock e) \<rparr>
                               else u) us)))"

section \<open>Email dispatch\<close>

text \<open>
  The email service is an external collaborator: a send either hands the message to the
  provider or throws a plain error. \<open>sendEmail\<close> is an awaited send;
  \<open>sendEmailSafe\<close> is the orchestrator's fire-and-forget wrapper, which logs a failure.
\<close>

definition sendEmail :: "env \<Rightarrow> state \<Rightarrow> string \<Rightarrow> string \<Rightarrow> (error + unit) \<times> state" where
  "sendEmail e st template recipient =
     (if email_fails e then (Inl GenericError, st)
      else (Inr (), st\<lparr> outbox := outbox st @ [(template, recipient)] \<rparr>))"

definition sendEmailSafe :: "env \<Rightarrow> state \<Rightarrow> string \<Rightarrow> string \<Rightarrow> state" where
  "sendEmailSafe e st template recipient =
     (case sendEmail e st template recipient of
        (Inl err, st') \<Rightarrow> st'\<lparr> logs := logs st' @ [''Email sending failed:''] \<rparr>
      | (Inr _, st') \<Rightarrow> st')"

section \<open>Auth orchestrator (auth.service.ts)\<close>

definition MSG_INVALID_CREDENTIALS :: string where
  "MSG_INVALID_CREDENTIALS = ''Invalid credentials''"

definition MSG_GOOGLE_ACCOUNT_REQUIRED :: string where
  "MSG_GOOGLE_ACCOUNT_REQUIRED =
     ''This account was created with Google. Please sign in with Google.''"

definition MSG_EMAIL_ALREADY_VERIFIED :: string where
  "MSG_EMAIL_ALREADY_VERIFIED = ''Email is already verified''"

record authTokens =
  accessToken :: string
  refreshToken_issued :: string
  expiresIn :: int

record authUser =
  au_id :: string
  au_email :: string
  au_firstName :: string
  au_lastName :: string
  au_authProvider :: authProvider
  au_isEmailVerified :: bool
  au_hasLoggedIn :: bool
  au_hasCompletedOnboarding :: bool
  au_onboardingStep :: int
  au_createdAt :: int

record authResult =
  res_user :: authUser
  res_tokens :: authTokens
  res_requiresOnboarding :: bool
  res_onboardingStep :: int
  res_isNewUser :: "bool option"

record registerRequest =
  reg_email :: string
  reg_password :: string
  reg_firstName :: "string option"
  reg_lastName :: "string option"

record loginRequest =
  login_email :: string
  login_password :: string

text \<open>\<open>user.onboardingStep || 0\<close>.\<close>

definition onboardingStepOr0 :: "user \<Rightarrow> int" where
  "onboardingStepOr0 u = (case onboardingStep u of None \<Rightarrow> 0 | Some n \<Rightarrow> n)"

definition sanitizeUser :: "user \<Rightarrow> authUser" where
  "sanitizeUser u =
     \<lparr> au_id = user_id u, au_email = email u, au_firstName = firstName u,
       au_lastName = lastName u, au_authProvider = authProvider u,
       au_isEmailVerified = isEmailVerified u, au_hasLoggedIn = hasLoggedIn u,
       au_hasCompletedOnboarding = hasCompletedOnboarding u,
       au_onboardingStep = onboardingStepOr0 u, au_createdAt = createdAt u \<rparr>"

definition authResultOf :: "user \<Rightarrow> authTokens \<Rightarrow> bool option \<Rightarrow> authResult" where
  "authResultOf u tokens isNew =
     \<lparr> res_user = sanitizeUser u, res_tokens = tokens,
       res_requiresOnboarding = (\<not> hasCompletedOnboarding u),
       res_onboardingStep = onboardingStepOr0 u, res_isNewUser = isNew \<rparr>"

text \<open>\<open>getTokenExpiry\<close>: 24 hours for a verification token, one hour for a reset token.\<close>

datatype tokenKind = Verification | Reset

definition getTokenExpiry :: "env \<Rightarrow> tokenKind \<Rightarrow> int" where
  "getTokenExpiry e kind =
     Date_now (clock e)
       + (case kind of Verification \<Rightarrow> 24 * 60 * 60 * 1000 | Reset \<Rightarrow> 60 * 60 * 1000)"

text \<open>
  \<open>generateTokens\<close>; \<open>k\<close> is the number of random draws the request has made before,
  so the two session ids are the draws \<open>k\<close> and \<open>k + 1\<close>.
\<close>

definition generateTokens ::
  "env \<Rightarrow> state \<Rightarrow> nat \<Rightarrow> string \<Rightarrow> string \<Rightarrow> (error + authTokens) \<times> state" where
  "generateTokens e st k userId addr =
     (let payload = \<lparr> p_userId = userId, p_email = Some addr,
                       p_iat = Some (Date_now (clock e) div 1000),
                       p_exp = Some (Date_now (clock e) div 1000 + 15 * 60) \<rparr>
      in case generateAccessToken e st (randomHex e k) payload of
           (Inl err, st1) \<Rightarrow> (Inl err, st1)
         | (Inr access, st1) \<Rightarrow>
             (case generateRefreshToken e st1 (randomHex e (k + 1)) payload of
                (Inl err, st2) \<Rightarrow> (Inl err, st2)
              | (Inr refresh, st2) \<Rightarrow>
                  (Inr \<lparr> accessToken = access, refreshToken_issued = refresh,
                         expiresIn = 15 * 60 \<rparr>, st2)))"

text \<open>\<open>PasswordService.hash\<close>: every failure leaves as a plain error.\<close>

definition hash :: "env \<Rightarrow> string \<Rightarrow> error + string" where
  "hash e pw =
     (if pw = [] then Inl GenericError
      else case argon2_hash e pw of None \<Rightarrow> Inl GenericError | Some h \<Rightarrow> Inr h)"

definition registerUser ::
  "env \<Rightarrow> state \<Rightarrow> registerRequest \<Rightarrow> (error + authResult) \<times> state" where
  "registerUser e st req =
     (case findByEmail e (users st) (reg_email req) of
        Inl err \<Rightarrow> (Inl err, st)
      | Inr (Some existingUser) \<Rightarrow> (Inl ConflictError, st)
      | Inr None \<Rightarrow>
          (case hash e (reg_password req) of
             Inl err \<Rightarrow> (Inl err, st)
           | Inr hashedPassword \<Rightarrow>
               (let verificationToken = randomHex e 0;
                    hashedToken = hashToken e verificationToken;
                    userData =
                      \<lparr> new_email = reg_email req,
                        new_firstName = (case reg_firstName req of None \<Rightarrow> [] | Some n \<Rightarrow> n),
                        new_lastName = (case reg_lastName req of None \<Rightarrow> [] | Some n \<Rightarrow> n),
                        new_password = Some hashedPassword, new_authProvider = Local,
                        new_googleId = None, new_isEmailVerified = False,
                        new_emailVerificationToken = Some hashedToken,
                        new_emailVerificationExpires = Some (getTokenExpiry e Verification),
                        new_profileImageUrl = None \<rparr>
                in case create e (users st) userData of
                     Inl err \<Rightarrow> (Inl err, st)
                   | Inr (u, us1) \<Rightarrow>
                       (case generateTokens e (st\<lparr> users := us1 \<rparr>) 1 (user_id u) (email u) of
                          (Inl err, st2) \<Rightarrow> (Inl err, st2)
                        | (Inr tokens, st2) \<Rightarrow>
                            (case update e (users st2) (user_id u)
                                    (noPatch\<lparr> set_refreshToken :=
                                                Some (Some (refreshToken_issued tokens)),
                                              set_lastLoginAt :=
                                                Some (Some (Date_now (clock e))) \<rparr>) of
                               Inl err \<Rightarrow> (Inl err, st2)
                             | Inr (_, us3) \<Rightarrow>
                                 (Inr (authResultOf u tokens None),
                                  sendEmailSafe e (st2\<lparr> users := us3 \<rparr>)
                                    ''verification'' (email u)))))))"

text \<open>\<open>checkAccountStatus\<close>: a \<open>lockedUntil\<close> in the future refuses the login.\<close>

definition checkAccountStatus :: "env \<Rightarrow> user \<Rightarrow> error + unit" where
  "checkAccountStatus e u =
     (if laterThan (lockedUntil_user u) (Date_now (clock e)) then Inl AccountLockedError
      else Inr ())"

text \<open>
  \<open>handleFailedLogin\<close>: the database counter is incremented, then the rate limiter is
  asked; the account is locked only when the rate limiter refuses with a date.
\<close>

definition handleFailedLogin :: "env \<Rightarrow> state \<Rightarrow> string \<Rightarrow> (error + unit) \<times> state" where
  "handleFailedLogin e st userId =
     (case incrementLoginAttempts e (users st) userId of
        Inl err \<Rightarrow> (Inl err, st)
      | Inr us1 \<Rightarrow>
          (let st1 = st\<lparr> users := us1 \<rparr>;
               rateLimitCheck = checkLoginAttempts (clock e) (redis st1) userId
           in if \<not> canAttempt rateLimitCheck
              then (case lockedUntil rateLimitCheck of
                      None \<Rightarrow> (Inr (), st1)
                    | Some until \<Rightarrow>
                        (case lockAccount e (users st1) userId until of
                           Inl err \<Rightarrow> (Inl err, st1)
                         | Inr us2 \<Rightarrow> (Inl AccountLockedError, st1\<lparr> users := us2 \<rparr>)))
              else (Inr (), st1)))"

definition loginUser ::
  "env \<Rightarrow> state \<Rightarrow> loginRequest \<Rightarrow> (error + authResult) \<times> state" where
  "loginUser e st req =
     (case findByEmail e (users st) (login_email req) of
        Inl err \<Rightarrow> (Inl err, st)
      | Inr None \<Rightarrow> (Inl (AuthenticationError MSG_INVALID_CREDENTIALS), st)
      | Inr (Some u) \<Rightarrow>
          (if authProvider u = Google
           then (Inl (AuthenticationError MSG_GOOGLE_ACCOUNT_REQUIRED), st)
           else case checkAccountStatus e u of
                  Inl err \<Rightarrow> (Inl err, st)
                | Inr _ \<Rightarrow>
                    (case password u of
                       None \<Rightarrow> (Inl (AuthenticationError MSG_INVALID_CREDENTIALS), st)
                     | Some storedHash \<Rightarrow>
                         (if storedHash = []
                          then (Inl (AuthenticationError MSG_INVALID_CREDENTIALS), st)
                          else case compare (argon2_verify e) (argon2_needsRehash e)
                                      (login_password req) storedHash of
                                 Inl err \<Rightarrow> (Inl err, st)
                               | Inr isPasswordValid \<Rightarrow>
                                   (if \<not> isPasswordValid
                                    then (case handleFailedLogin e st (user_id u) of
                                            (Inl err, st1) \<Rightarrow> (Inl err, st1)
                                          | (Inr _, st1) \<Rightarrow>
                                              (Inl (AuthenticationError MSG_INVALID_CREDENTIALS),
                                               st1))
                                    else case generateTokens e st 0 (user_id u) (email u) of
                                           (Inl err, st1) \<Rightarrow> (Inl err, st1)
                                         | (Inr tokens, st1) \<Rightarrow>
                                             (case update e (users st1) (user_id u)
                                                     (noPatch\<lparr>
                                                        set_lastLoginAt :=
                                                          Some (Some (Date_now (clock e))),
                                                        set_loginAttempts := Some 0,
                                                        set_lockedUntil := Some None,
                                                        set_refreshToken :=
                                                          Some (Some (refreshToken_issued tokens)),
                                                        set_hasLoggedIn := Some True \<rparr>) of
                                                Inl err \<Rightarrow> (Inl err, st1)
                                              | Inr (_, us2) \<Rightarrow>
                                                  (Inr (authResultOf u tokens None),
                                                   (if \<not> hasLoggedIn u \<and> isEmailVerified u
                                                    then sendEmailSafe e (st1\<lparr> users := us2 \<rparr>)
                                                           ''welcome'' (email u)
                                                    else st1\<lparr> users := us2 \<rparr>))))))))"

text \<open>
  \<open>findUserByToken\<close>: the lookup is by the hash of the token, and the query itself
  already asks for an expiry in the future.
\<close>

definition findUserByToken :: "env \<Rightarrow> user list \<Rightarrow> string \<Rightarrow> tokenKind \<Rightarrow> error + user" where
  "findUserByToken e us token kind =
     (if token = [] then Inl InvalidTokenError
      else case (case kind of
                   Verification \<Rightarrow> findByEmailVerificationToken e us (hashToken e token)
                 | Reset \<Rightarrow> findByPasswordResetToken e us (hashToken e token)) of
             Inl err \<Rightarrow> Inl err
           | Inr None \<Rightarrow> Inl InvalidTokenError
           | Inr (Some u) \<Rightarrow>
               (case (case kind of Verification \<Rightarrow> emailVerificationExpires u
                                 | Reset \<Rightarrow> passwordResetExpires u) of
                  None \<Rightarrow> Inl TokenExpiredError
                | Some expirationField \<Rightarrow>
                    (if expirationField < Date_now (clock e) then Inl TokenExpiredError
                     else Inr u)))"

definition verifyEmail :: "env \<Rightarrow> state \<Rightarrow> string \<Rightarrow> (error + unit) \<times> state" where
  "verifyEmail e st token =
     (case findUserByToken e (users st) token Verification of
        Inl err \<Rightarrow> (Inl err, st)
      | Inr u \<Rightarrow>
          (case update e (users st) (user_id u)
                  (noPatch\<lparr> set_isEmailVerified := Some True,
                            set_emailVerificationToken := Some None,
                            set_emailVerificationExpires := Some None \<rparr>) of
             Inl err \<Rightarrow> (Inl err, st)
           | Inr (_, us1) \<Rightarrow>
               (Inr (),
                (if hasLoggedIn u then sendEmailSafe e (st\<lparr> users := us1 \<rparr>) ''welcome'' (email u)
                 else st\<lparr> users := us1 \<rparr>))))"

text \<open>
  \<open>forgotPassword\<close>. \<open>forgotPassword_try\<close> is the body of the \<open>try\<close>, entered when
  the lookup found an identity; the \<open>catch\<close> logs and the method returns normally. The
  lookup itself is outside the \<open>try\<close>.
\<close>

definition forgotPassword_try :: "env \<Rightarrow> state \<Rightarrow> user \<Rightarrow> (error + unit) \<times> state" where
  "forgotPassword_try e st u =
     (let resetToken = randomHex e 0;
          hashedToken = hashToken e resetToken
      in case update e (users st) (user_id u)
                (noPatch\<lparr> set_passwordResetToken := Some (Some hashedToken),
                          set_passwordResetExpires := Some (Some (getTokenExpiry e Reset)) \<rparr>) of
           Inl err \<Rightarrow> (Inl err, st)
         | Inr (_, us1) \<Rightarrow> sendEmail e (st\<lparr> users := us1 \<rparr>) ''passwordReset'' (email u))"

definition forgotPassword :: "env \<Rightarrow> state \<Rightarrow> string \<Rightarrow> (error + unit) \<times> state" where
  "forgotPassword e st addr =
     (case findByEmail e (users st) addr of
        Inl err \<Rightarrow> (Inl err, st)
      | Inr None \<Rightarrow> (Inr (), st)
      | Inr (Some u) \<Rightarrow>
          (case forgotPassword_try e st u of
             (Inl err, st1) \<Rightarrow> (Inr (), st1\<lparr> logs := logs st1 @ [''Password reset email failed:''] \<rparr>)
           | (Inr _, st1) \<Rightarrow> (Inr (), st1)))"

definition resetPassword :: "env \<Rightarrow> state \<Rightarrow> string \<Rightarrow> string \<Rightarrow> (error + unit) \<times> state" where
  "resetPassword e st token newPassword =
     (case findUserByToken e (users st) token Reset of
        Inl err \<Rightarrow> (Inl err, st)
      | Inr u \<Rightarrow>
          (case hash e newPassword of
             Inl err \<Rightarrow> (Inl err, st)
           | Inr hashedPassword \<Rightarrow>
               (case update e (users st) (user_id u)
                       (noPatch\<lparr> set_password := Some (Some hashedPassword),
                                 set_passwordResetToken := Some None,
                                 set_passwordResetExpires := Some None,
                                 set_passwordChangedAt := Some (Some (Date_now (clock e))),
                                 set_loginAttempts := Some 0,
                                 set_lockedUntil := Some None \<rparr>) of
                  Inl err \<Rightarrow> (Inl err, st)
                | Inr (_, us1) \<Rightarrow>
                    (Inr (), sendEmailSafe e (st\<lparr> users := us1 \<rparr>) ''passwordChanged'' (email u)))))"

text \<open>
  \<open>AuthService.refreshToken\<close>. Whatever \<open>verifyRefreshToken\<close> raises, the \<open>catch\<close>
  raises \<open>InvalidTokenError\<close> in its place.
\<close>

definition refreshToken_service :: "env \<Rightarrow> state \<Rightarrow> string \<Rightarrow> (error + authTokens) \<times> state" where
  "refreshToken_service e st token =
     (if token = [] then (Inl InvalidTokenError, st)
      else case verifyRefreshToken e token of
             Inl err \<Rightarrow> (Inl InvalidTokenError, st)
           | Inr decoded \<Rightarrow>
               (case findByRefreshToken e (users st) token of
                  Inl err \<Rightarrow> (Inl err, st)
                | Inr None \<Rightarrow> (Inl InvalidTokenError, st)
                | Inr (Some u) \<Rightarrow>
                    (if user_id u \<noteq> p_userId decoded then (Inl InvalidTokenError, st)
                     else case generateTokens e st 0 (user_id u) (email u) of
                            (Inl err, st1) \<Rightarrow> (Inl err, st1)
                          | (Inr tokens, st1) \<Rightarrow>
                              (case update e (users st1) (user_id u)
                                      (noPatch\<lparr> set_refreshToken :=
                                                  Some (Some (refreshToken_issued tokens)) \<rparr>) of
                                 Inl err \<Rightarrow> (Inl err, st1)
                               | Inr (_, us2) \<Rightarrow> (Inr tokens, st1\<lparr> users := us2 \<rparr>)))))"

definition logoutUser :: "env \<Rightarrow> state \<Rightarrow> string \<Rightarrow> (error + unit) \<times> state" where
  "logoutUser e st userId =
     (case update e (users st) userId (noPatch\<lparr> set_refreshToken := Some None \<rparr>) of
        Inl err \<Rightarrow> (Inl err, st)
      | Inr (_, us1) \<Rightarrow> (Inr (), st\<lparr> users := us1 \<rparr>))"

definition getCurrentUser :: "env \<Rightarrow> state \<Rightarrow> string \<Rightarrow> error + (authUser \<times> bool \<times> int)" where
  "getCurrentUser e st userId =
     (case findById e (users st) userId of
        Inl err \<Rightarrow> Inl err
      | Inr None \<Rightarrow> Inl NotFoundError
      | Inr (Some u) \<Rightarrow> Inr (sanitizeUser u, \<not> hasCompletedOnboarding u, onboardingStepOr0 u))"

definition resendVerificationEmail :: "env \<Rightarrow> state \<Rightarrow> string \<Rightarrow> (error + unit) \<times> state" where
  "resendVerificationEmail e st userId =
     (case findById e (users st) userId of
        Inl err \<Rightarrow> (Inl err, st)
      | Inr None \<Rightarrow> (Inl NotFoundError, st)
      | Inr (Some u) \<Rightarrow>
          (if isEmailVerified u
           then (Inl (AuthenticationError MSG_EMAIL_ALREADY_VERIFIED), st)
           else case checkEmailResend (clock e) (redis st) userId of
                  (rateLimitCheck, r1) \<Rightarrow>
                    (let st1 = st\<lparr> redis := r1 \<rparr>
                     in if \<not> canResend rateLimitCheck then (Inl RateLimitError, st1)
                        else (let verificationToken = randomHex e 0;
                                  hashedToken = hashToken e verificationToken
                              in case update e (users st1) userId
                                        (noPatch\<lparr>
                                           set_emailVerificationToken := Some (Some hashedToken),
                                           set_emailVerificationExpires :=
                                             Some (Some (getTokenExpiry e Verification)) \<rparr>) of
                                   Inl err \<Rightarrow> (Inl err, st1)
                                 | Inr (_, us2) \<Rightarrow>
                                     sendEmail e (st1\<lparr> users := us2 \<rparr>)
                                       ''verification'' (email u)))))"

section \<open>OAuth federation adapter (oauth.service.ts)\<close>

text \<open>
  \<open>processGoogleCode\<close>: the exchange with Google and the check of the identity
  assertion are the environment's \<open>google_exchange\<close>; every failure is the one generic
  error.
\<close>

definition processGoogleCode :: "env \<Rightarrow> string \<Rightarrow> error + googleProfile" where
  "processGoogleCode e code =
     (case google_exchange e code of None \<Rightarrow> Inl GenericError | Some profile \<Rightarrow> Inr profile)"

definition findOrCreateGoogleUser ::
  "env \<Rightarrow> user list \<Rightarrow> googleProfile \<Rightarrow> error + ((user \<times> bool) \<times> user list)" where
  "findOrCreateGoogleUser e us profile =
     (case findByEmail e us (g_email profile) of
        Inl err \<Rightarrow> Inl err
      | Inr None \<Rightarrow>
          (case create e us
                  \<lparr> new_email = g_email profile, new_firstName = g_firstName profile,
                    new_lastName = g_lastName profile, new_password = None,
                    new_authProvider = Google, new_googleId = Some (g_id profile),
                    new_isEmailVerified = g_emailVerified profile,
                    new_emailVerificationToken = None, new_emailVerificationExpires = None,
                    new_profileImageUrl = g_picture profile \<rparr> of
             Inl err \<Rightarrow> Inl err
           | Inr (u, us1) \<Rightarrow> Inr ((u, True), us1))
      | Inr (Some u) \<Rightarrow>
          (if (googleId u = None \<or> googleId u = Some []) \<and> authProvider u = Google
           then (case update e us (user_id u)
                        (noPatch\<lparr> set_googleId := Some (Some (g_id profile)) \<rparr>) of
                   Inl err \<Rightarrow> Inl err
                 | Inr (_, us1) \<Rightarrow> Inr ((u, False), us1))
           else Inr ((u, False), us)))"

definition authenticateWithGoogle :: "env \<Rightarrow> state \<Rightarrow> string \<Rightarrow> (error + authResult) \<times> state" where
  "authenticateWithGoogle e st code =
     (case processGoogleCode e code of
        Inl err \<Rightarrow> (Inl err, st)
      | Inr googleProfile \<Rightarrow>
          (case findOrCreateGoogleUser e (users st) googleProfile of
             Inl err \<Rightarrow> (Inl err, st)
           | Inr ((u, isNewUser), us1) \<Rightarrow>
               (case generateTokens e (st\<lparr> users := us1 \<rparr>) 0 (user_id u) (email u) of
                  (Inl err, st2) \<Rightarrow> (Inl err, st2)
                | (Inr tokens, st2) \<Rightarrow>
                    (case update e (users st2) (user_id u)
                            (noPatch\<lparr> set_refreshToken :=
                                        Some (Some (refreshToken_issued tokens)),
                                      set_lastLoginAt := Some (Some (Date_now (clock e))),
                                      set_hasLoggedIn := Some True \<rparr>) of
                       Inl err \<Rightarrow> (Inl err, st2)
                     | Inr (_, us3) \<Rightarrow>
                         (Inr (authResultOf u tokens (Some isNewUser)),
                          st2\<lparr> users := us3 \<rparr>)))))"

section \<open>Sample data\<close>

text \<open>
  A concrete environment and identity store, used to run the model on explicit inputs.
  The hash functions and the token codec stand in for SHA-256, argon2 and jsonwebtoken
  (closed terms that evaluate): the sample codec knows two signed tokens, and the sample
  signer does what \<open>jwt.sign\<close> does when the payload already carries \<open>exp\<close> and
  the options carry \<open>expiresIn\<close> (which every call of the token engine passes): it
  throws.
\<close>

definition sampleConfig :: tokenServiceConfig where
  "sampleConfig =
     \<lparr> jwtAccessSecret = ''access-secret'', jwtRefreshSecret = ''refresh-secret'',
       jwtAccessExpiry = ''15m'', jwtRefreshExpiry = ''7d'', issuer = ''kokoru'' \<rparr>"

definition aliceId :: string where
  "aliceId = ''11111111-1111-4111-8111-111111111111''"

definition bobId :: string where
  "bobId = ''22222222-2222-4222-9222-222222222222''"

text \<open>An access token of Alice's that expires at second 2000.\<close>

definition sampleAccessJwt :: jwt where
  "sampleAccessJwt =
     \<lparr> jwt_userId = aliceId, jwt_email = Some ''alice@example.com'',
       jwt_sessionId = Some ''s1'', jwt_type = Some ''access'', jwt_iat = Some 1100,
       jwt_exp = Some 2000, jwt_iss = Some ''kokoru'', jwt_aud = Some ''kokoru-garden'',
       jwt_signedWith = ''access-secret'' \<rparr>"

text \<open>A refresh token of Alice's, correctly signed, that expired at second 500.\<close>

definition sampleOldRefreshJwt :: jwt where
  "sampleOldRefreshJwt =
     \<lparr> jwt_userId = aliceId, jwt_email = None,
       jwt_sessionId = Some ''s0'', jwt_type = Some ''refresh'', jwt_iat = Some 100,
       jwt_exp = Some 500, jwt_iss = Some ''kokoru'', jwt_aud = None,
       jwt_signedWith = ''refresh-secret'' \<rparr>"

definition aliceProfile :: googleProfile where
  "aliceProfile =
     \<lparr> g_id = ''google-sub-1'', g_email = ''alice@example.com'', g_emailVerified = True,
       g_name = ''Alice A'', g_firstName = ''Alice'', g_lastName = ''A'', g_picture = None \<rparr>"

definition sampleEnv :: env where
  "sampleEnv =
     \<lparr> clock = 1200,
       config = sampleConfig,
       randomHex = (\<lambda>k. if k = 0 then ''rnd0'' else if k = 1 then ''rnd1'' else ''rnd2''),
       uuid = ''33333333-3333-4333-a333-333333333333'',
       sha256 = (\<lambda>s. ''sha256/'' @ s),
       jwt_sign = (\<lambda>q. case s_exp q of
                          Some x \<Rightarrow> None
                        | None \<Rightarrow> Some (s_type q @ ''-token-'' @ s_sessionId q)),
       jwt_decode = (\<lambda>t. if t = ''alice-access'' then Some sampleAccessJwt
                         else if t = ''alice-old-refresh'' then Some sampleOldRefreshJwt
                         else None),
       argon2_hash = (\<lambda>p. Some (''argon2/'' @ p)),
       argon2_verify = (\<lambda>h p. if take 7 h = ''argon2/'' then Some (h = ''argon2/'' @ p)
                              else None),
       argon2_needsRehash = (\<lambda>h. Some False),
       google_exchange = (\<lambda>c. if c = ''code-from-alice'' then Some aliceProfile else None),
       db_fails = (\<lambda>operation. False),
       email_fails = False \<rparr>"

text \<open>Alice registered with a password; Bob signed up through Google.\<close>

definition alice :: user where
  "alice =
     \<lparr> user_id = aliceId, email = ''alice@example.com'', firstName = ''Alice'',
       lastName = ''A'', password = Some ''argon2/correct horse'', authProvider = Local,
       googleId = None, profileImageUrl = None, isEmailVerified = False,
       emailVerificationToken = Some ''sha256/v0'', emailVerificationExpires = Some 90000000,
       passwordResetToken = None, passwordResetExpires = None, passwordChangedAt = None,
       refreshToken = Some ''alice-old-refresh'', loginAttempts = 0, lockedUntil_user = None,
       lastLoginAt = Some 100000, hasLoggedIn = True, hasCompletedOnboarding = False,
       onboardingStep = Some 0, createdAt = 100000, updatedAt = 100000 \<rparr>"

definition bob :: user where
  "bob =
     \<lparr> user_id = bobId, email = ''bob@example.com'', firstName = ''Bob'',
       lastName = ''B'', password = None, authProvider = Google,
       googleId = Some ''google-sub-2'', profileImageUrl = None, isEmailVerified = True,
       emailVerificationToken = None, emailVerificationExpires = None,
       passwordResetToken = None, passwordResetExpires = None, passwordChangedAt = None,
       refreshToken = None, loginAttempts = 0, lockedUntil_user = None,
       lastLoginAt = Some 200000, hasLoggedIn = True, hasCompletedOnboarding = True,
       onboardingStep = Some 3, createdAt = 200000, updatedAt = 200000 \<rparr>"

definition sampleState :: state where
  "sampleState = \<lparr> users = [alice, bob], redis = (\<lambda>k. None), outbox = [], logs = [] \<rparr>"

text \<open>
  The invariant of the data model on one identity: exactly one of "a password hash is
  present" and "the provider is Google" holds.
\<close>

definition passwordXorGoogle :: "user \<Rightarrow> bool" where
  "passwordXorGoogle u = ((password u \<noteq> None) \<noteq> (authProvider u = Google))"

text \<open>
  A run of logins with the same request, one at each of the given times, in order; the
  results are collected.
\<close>

fun loginRun ::
  "env \<Rightarrow> state \<Rightarrow> loginRequest \<Rightarrow> int list \<Rightarrow> (error + authResult) list \<times> state" where
  "loginRun e st req [] = ([], st)"
| "loginRun e st req (t # ts) =
     (case loginUser (e\<lparr> clock := t \<rparr>) st req of
        (res, st1) \<Rightarrow> (case loginRun e st1 req ts of (rs, st2) \<Rightarrow> (res # rs, st2)))"

text \<open>
  The sample store after Alice has failed \<open>n\<close> logins, the last one at \<open>upd\<close>
  (milliseconds), and a login request for her account with a wrong password.
\<close>

definition lockoutState :: "int \<Rightarrow> int \<Rightarrow> state" where
  "lockoutState n upd =
     sampleState\<lparr> users := [alice\<lparr> loginAttempts := n, updatedAt := upd \<rparr>, bob] \<rparr>"

definition wrongLogin :: loginRequest where
  "wrongLogin = \<lparr> login_email = ''alice@example.com'', login_password = ''wrong guess'' \<rparr>"

text \<open>The weaker property that resetting a password keeps: a local identity has a hash.\<close>

definition localHasPassword :: "user \<Rightarrow> bool" where
  "localHasPassword u = (authProvider u = Google \<or> password u \<noteq> None)"

section \<open>Properties of the credential hasher\<close>

lemma length_replaceLast:
  "p \<noteq> [] \<Longrightarrow> length (replaceLast p c) = length p"
  by (simp add: replaceLast_def)

lemma length_adjust:
  "length p = 12 \<Longrightarrow> length (if b then replaceLast p c else p) = 12"
  by (simp add: replaceLast_def)

lemma length_generateTemporaryPassword:
  "length (generateTemporaryPassword cfg randomBytesBuffer) = 12"
proof -
  define p0 where
    "p0 = map (\<lambda>i. charset ! (unat (randomBytesBuffer i) mod length charset)) [0..<12]"
  define p1 where "p1 = (if \<not> hasUppercase p0 then replaceLast p0 (CHR ''A'') else p0)"
  define p2 where "p2 = (if \<not> hasLowercase p1 then replaceLast p1 (CHR ''a'') else p1)"
  define p3 where "p3 = (if \<not> hasNumber p2 then replaceLast p2 (CHR ''1'') else p2)"
  define p4 where
    "p4 = (if requireSpecialChars cfg \<and> \<not> hasSpecialChar p3
           then replaceLast p3 (CHR ''!'') else p3)"
  have l0: "length p0 = 12" by (simp add: p0_def)
  have l1: "length p1 = 12" unfolding p1_def by (rule length_adjust [OF l0])
  have l2: "length p2 = 12" unfolding p2_def by (rule length_adjust [OF l1])
  have l3: "length p3 = 12" unfolding p3_def by (rule length_adjust [OF l2])
  have l4: "length p4 = 12" unfolding p4_def by (rule length_adjust [OF l3])
  have "generateTemporaryPassword cfg randomBytesBuffer = p4"
    by (simp only: generateTemporaryPassword_def Let_def p0_def p1_def p2_def p3_def p4_def)
  then show ?thesis using l4 by simp
qed

lemma all_zero_draw:
  "map (\<lambda>i. charset ! (unat ((\<lambda>i. 52 :: 8 word) i) mod length charset)) [0..<12]
     = ''000000000000''"
proof -
  have idx: "[0..<12] = [0,1,2,3,4,5,6,7,8,9,10,11::nat]"
    by (simp add: upt_rec)
  have len: "length charset = 70" by (simp add: charset_def)
  have draw: "charset ! 52 = CHR ''0''" by (simp add: charset_def)
  show ?thesis unfolding idx by (simp add: len draw)
qed

lemma all_zero_upper: "hasUppercase ''000000000000'' = False"
  by (simp add: hasUppercase_def isUpperAZ_def)

lemma all_zero_lower: "hasLowercase (replaceLast ''000000000000'' (CHR ''A'')) = False"
  by (simp add: hasLowercase_def isLowerAZ_def replaceLast_def)

lemma all_zero_number: "hasNumber ''00000000000a'' = True"
  by (simp add: hasNumber_def isDigit_def)

lemma all_zero_result:
  "replaceLast (replaceLast ''000000000000'' (CHR ''A'')) (CHR ''a'') = ''00000000000a''"
  by (simp add: replaceLast_def)

text \<open>
  C8. The claim promises an uppercase letter, a lowercase letter and a digit in every
  temporary password. Each adjustment overwrites the same last position, so a later one
  undoes an earlier one: on twelve random bytes of value 52 the draw is twelve zeros, the
  uppercase fix writes \<open>A\<close> at the end, the lowercase fix replaces that \<open>A\<close> by \<open>a\<close>, and
  the password returned has no uppercase letter. The length is 12 all the same.
\<close>

theorem generateTemporaryPassword_loses_uppercase:
  "generateTemporaryPassword defaultPasswordConfig (\<lambda>i. 52) = ''00000000000a''
   \<and> \<not> hasUppercase (generateTemporaryPassword defaultPasswordConfig (\<lambda>i. 52))
   \<and> length (generateTemporaryPassword defaultPasswordConfig (\<lambda>i. 52)) = 12"
proof -
  have cfg: "requireSpecialChars defaultPasswordConfig = False"
    by (simp add: defaultPasswordConfig_def)
  have val: "generateTemporaryPassword defaultPasswordConfig (\<lambda>i. 52) = ''00000000000a''"
    unfolding generateTemporaryPassword_def Let_def all_zero_draw
    by (simp only: all_zero_upper all_zero_lower all_zero_number all_zero_result cfg
        simp_thms if_True if_False)
  have up: "\<not> hasUppercase ''00000000000a''"
    by (simp add: hasUppercase_def isUpperAZ_def)
  show ?thesis
    unfolding val using up by simp
qed

text \<open>
  C9. \<open>verify\<close> returns a boolean for every hash and password and every behaviour of the
  argon2 binding; an empty hash or password, and a binding that throws (on a malformed
  hash, or while checking whether a rehash is needed), give \<open>false\<close>.
\<close>

theorem verify_never_throws:
  "(\<exists>b. verify av nr h pw = Inr b)
   \<and> (h = [] \<or> pw = [] \<or> av h pw = None
        \<or> nr h = None \<and> av h pw = Some True
      \<longrightarrow> verify av nr h pw = Inr False)"
  by (auto simp: verify_def verify_body_def split: option.splits sum.splits)

theorem verify_never_throws_witness:
  "(\<exists>b. verify (\<lambda>h p. None) (\<lambda>h. Some False) ''not-a-hash'' ''pw'' = Inr b)
   \<and> verify (\<lambda>h p. None) (\<lambda>h. Some False) ''not-a-hash'' ''pw'' = Inr False"
  using verify_never_throws [of "\<lambda>h p. None" "\<lambda>h. Some False" "''not-a-hash''" "''pw''"]
  by auto

section \<open>Properties of the rate limiter\<close>

lemma sorted_le_last:
  "sorted (xs :: int list) \<Longrightarrow> x \<in> set xs \<Longrightarrow> x \<le> last xs"
  by (induction xs) auto

lemma recordFailedLogin_first:
  assumes "redis_get t r (login_attempts_key userId) = None"
  shows "recordFailedLogin t r userId =
           Inr (r(login_attempts_key userId \<mapsto> (RInt 1, Some (t + LOGIN_WINDOW))))"
proof -
  have live: "redis_live t r (login_attempts_key userId) = None"
    using assms by (simp add: redis_get_def)
  have win: "0 < LOGIN_WINDOW" by (simp add: LOGIN_WINDOW_def)
  have live': "redis_live t (r(login_attempts_key userId \<mapsto> (RInt 1, None)))
                 (login_attempts_key userId) = Some (RInt 1, None)"
    by (simp add: redis_live_def)
  show ?thesis
    by (simp add: recordFailedLogin_def redis_incr_def redis_expire_def live live')
qed

lemma recordFailedLogin_later:
  assumes "r (login_attempts_key userId) = Some (RInt n, Some e)" and "1 \<le> n" and "t < e"
  shows "recordFailedLogin t r userId =
           Inr (r(login_attempts_key userId \<mapsto> (RInt (n + 1), Some e)))"
proof -
  have live: "redis_live t r (login_attempts_key userId) = Some (RInt n, Some e)"
    using assms by (simp add: redis_live_def)
  show ?thesis
    using assms(2) by (simp add: recordFailedLogin_def redis_incr_def live)
qed

lemma recordFailedLogins_later:
  assumes "r (login_attempts_key userId) = Some (RInt n, Some e)" and "1 \<le> n"
    and "list_all (\<lambda>t. t < e) ts"
  shows "\<exists>r'. recordFailedLogins r userId ts = Inr r'
               \<and> r' (login_attempts_key userId) = Some (RInt (n + int (length ts)), Some e)"
  using assms
proof (induction ts arbitrary: r n)
  case Nil
  then show ?case by simp
next
  case (Cons t ts)
  let ?r1 = "r(login_attempts_key userId \<mapsto> (RInt (n + 1), Some e))"
  have step: "recordFailedLogin t r userId = Inr ?r1"
    using Cons.prems by (intro recordFailedLogin_later) auto
  have "\<exists>r'. recordFailedLogins ?r1 userId ts = Inr r'
               \<and> r' (login_attempts_key userId) = Some (RInt (n + 1 + int (length ts)), Some e)"
    using Cons.prems by (intro Cons.IH) auto
  moreover have "n + 1 + int (length ts) = n + int (length (t # ts))" by simp
  ultimately show ?case by (simp only: recordFailedLogins.simps step sum.case)
qed

lemma checkLoginAttempts_locked:
  assumes "r (login_attempts_key userId) = Some (RInt n, Some e)"
    and "MAX_LOGIN_ATTEMPTS \<le> n" and "now < e"
  shows "checkLoginAttempts now r userId =
           \<lparr> canAttempt = False, attemptsRemaining = Some 0, lockedUntil = Some (Date_now e) \<rparr>"
proof -
  have live: "redis_live now r (login_attempts_key userId) = Some (RInt n, Some e)"
    using assms by (simp add: redis_live_def)
  show ?thesis
    using assms(2,3)
    by (simp add: checkLoginAttempts_def Let_def attemptCountOf_def redis_get_def redis_ttl_def
        live Date_now_def algebra_simps)
qed

text \<open>
  C5. Starting from no live counter for the identity, five or more calls of
  \<open>recordFailedLogin\<close> (at the times \<open>t1 # ts\<close>, in order) followed by a
  \<open>checkLoginAttempts\<close> while the window opened by the first failure is still running
  give \<open>canAttempt = false\<close>, \<open>attemptsRemaining = 0\<close> and a \<open>lockedUntil\<close>
  strictly in the future. The expiry is set by the first call only, so \<open>lockedUntil\<close>
  is the first failure's time plus the window whether five, six or more failures were
  recorded.
\<close>

theorem lockout_anchored_to_first_failure:
  assumes fresh: "redis_get t1 r (login_attempts_key userId) = None"
    and order: "sorted (t1 # ts)"
    and count: "4 \<le> length ts"
    and after: "last (t1 # ts) \<le> now"
    and window: "now < t1 + LOGIN_WINDOW"
  shows "\<exists>r'. recordFailedLogins r userId (t1 # ts) = Inr r'
               \<and> checkLoginAttempts now r' userId =
                   \<lparr> canAttempt = False, attemptsRemaining = Some 0,
                     lockedUntil = Some (Date_now (t1 + LOGIN_WINDOW)) \<rparr>
               \<and> Date_now now < Date_now (t1 + LOGIN_WINDOW)"
proof -
  let ?key = "login_attempts_key userId"
  let ?r1 = "r(?key \<mapsto> (RInt 1, Some (t1 + LOGIN_WINDOW)))"
  have first: "recordFailedLogin t1 r userId = Inr ?r1"
    by (rule recordFailedLogin_first [OF fresh])
  have bound: "list_all (\<lambda>t. t < t1 + LOGIN_WINDOW) ts"
  proof -
    have "\<forall>t \<in> set ts. t \<le> last (t1 # ts)"
      using sorted_le_last [OF order] by simp
    then show ?thesis using after window by (auto simp: list_all_iff)
  qed
  obtain r' where run: "recordFailedLogins ?r1 userId ts = Inr r'"
    and cnt: "r' ?key = Some (RInt (1 + int (length ts)), Some (t1 + LOGIN_WINDOW))"
    using recordFailedLogins_later [of ?r1 userId 1 "t1 + LOGIN_WINDOW" ts] bound by auto
  have enough: "MAX_LOGIN_ATTEMPTS \<le> 1 + int (length ts)"
    using count by (simp add: MAX_LOGIN_ATTEMPTS_def)
  have chk: "checkLoginAttempts now r' userId =
           \<lparr> canAttempt = False, attemptsRemaining = Some 0,
             lockedUntil = Some (Date_now (t1 + LOGIN_WINDOW)) \<rparr>"
    using checkLoginAttempts_locked [of r' userId "1 + int (length ts)" "t1 + LOGIN_WINDOW" now]
      cnt enough window by simp
  have fut: "Date_now now < Date_now (t1 + LOGIN_WINDOW)"
    using window by (simp add: Date_now_def)
  show ?thesis using first run chk fut by simp
qed

theorem lockout_anchored_witness:
  "\<exists>r'. recordFailedLogins (\<lambda>k. None) ''u1'' [100, 110, 120, 130, 140, 150] = Inr r'
        \<and> checkLoginAttempts 200 r' ''u1'' =
            \<lparr> canAttempt = False, attemptsRemaining = Some 0, lockedUntil = Some 1000000 \<rparr>
        \<and> Date_now 200 < 1000000"
  using lockout_anchored_to_first_failure
          [of 100 "\<lambda>k. None" "''u1''" "[110, 120, 130, 140, 150]" 200]
  by (simp add: redis_get_def redis_live_def LOGIN_WINDOW_def Date_now_def)

section \<open>Properties of the token engine\<close>

lemma jwt_verify_valid:
  assumes "jwt_decode e token = Some j"
    and "jwt_signedWith j = secret"
    and "iss = [] \<or> jwt_iss j = Some iss"
    and "aud = None \<or> jwt_aud j = aud"
    and "jwt_exp j = Some x" and "clock e < x"
  shows "jwt_verify e token secret iss aud = Inr j"
  using assms by (auto simp: jwt_verify_def split: option.splits)

lemma jwt_verify_expired:
  assumes "jwt_decode e token = Some j"
    and "jwt_signedWith j = secret"
    and "jwt_exp j = Some x" and "x \<le> clock e"
  shows "jwt_verify e token secret iss aud = Inl LibTokenExpiredError"
  using assms by (simp add: jwt_verify_def)

lemma blacklisted_after_revoke:
  assumes "jwt_decode e token = Some j" and "jwt_exp j = Some x"
    and "0 \<le> t0" and "t0 \<le> clock e" and "clock e < x"
  shows "isTokenBlacklisted e (revokeToken (e\<lparr>clock := t0\<rparr>) r token) token"
proof -
  have "revokeToken (e\<lparr>clock := t0\<rparr>) r token =
          redis_setex t0 r (BLACKLIST_PREFIX @ hashToken e token) (x - t0) (RInt 1)"
    using assms by (simp add: revokeToken_def hashToken_def Let_def)
  then show ?thesis
    using assms by (simp add: isTokenBlacklisted_def redis_exists_def redis_live_def redis_setex_def)
qed

text \<open>
  C3. An access token that decodes, carries the access secret's signature, the configured
  issuer and the audience, and is not past its expiry, is accepted by
  \<open>verifyAccessToken\<close> whatever the store holds. In particular, after \<open>revokeToken\<close>
  has blacklisted it (at an earlier time \<open>t0\<close>), the lookup finds the entry, the warning
  is logged, and the payload is returned all the same.
\<close>

theorem revoked_access_token_still_verifies:
  assumes "jwt_decode e token = Some j"
    and "jwt_signedWith j = jwtAccessSecret (config e)"
    and "issuer (config e) = [] \<or> jwt_iss j = Some (issuer (config e))"
    and "jwt_aud j = Some ''kokoru-garden''"
    and "jwt_exp j = Some x"
    and "0 \<le> t0" and "t0 \<le> clock e" and "clock e < x"
  shows "verifyAccessToken e (revokeToken (e\<lparr>clock := t0\<rparr>) r token) token =
           (Inr \<lparr> p_userId = jwt_userId j, p_email = jwt_email j,
                  p_iat = jwt_iat j, p_exp = jwt_exp j \<rparr>,
            [''Attempted to use blacklisted token''])
         \<and> fst (verifyAccessToken e r' token) =
             Inr \<lparr> p_userId = jwt_userId j, p_email = jwt_email j,
                   p_iat = jwt_iat j, p_exp = jwt_exp j \<rparr>"
proof -
  have ok: "jwt_verify e token (jwtAccessSecret (config e)) (issuer (config e))
              (Some ''kokoru-garden'') = Inr j"
    using assms by (intro jwt_verify_valid [where x = x]) auto
  have bl: "isTokenBlacklisted e (revokeToken (e\<lparr>clock := t0\<rparr>) r token) token"
    using assms by (intro blacklisted_after_revoke [where j = j and x = x]) auto
  show ?thesis
    by (simp add: verifyAccessToken_def ok bl)
qed

theorem revoked_access_token_witness:
  "verifyAccessToken sampleEnv
     (revokeToken (sampleEnv\<lparr>clock := 1150\<rparr>) (\<lambda>k. None) ''alice-access'') ''alice-access'' =
     (Inr \<lparr> p_userId = aliceId, p_email = Some ''alice@example.com'',
            p_iat = Some 1100, p_exp = Some 2000 \<rparr>,
      [''Attempted to use blacklisted token''])"
  using revoked_access_token_still_verifies
          [where e = sampleEnv and token = "''alice-access''" and j = sampleAccessJwt
             and x = 2000 and ?t0.0 = 1150 and r = "\<lambda>k. None" and r' = "\<lambda>k. None"]
  by (simp add: sampleEnv_def sampleAccessJwt_def sampleConfig_def)

section \<open>Properties of the refresh flow\<close>

text \<open>
  C6. For a refresh token that decodes and carries the refresh secret's signature but is
  past its expiry, the token engine's \<open>verifyRefreshToken\<close> raises
  \<open>TokenExpiredError\<close>; the orchestrator's refresh operation catches it and raises
  \<open>InvalidTokenError\<close>, leaving the state as it was.
\<close>

theorem expired_refresh_token_is_invalid:
  assumes "jwt_decode e token = Some j"
    and "jwt_signedWith j = jwtRefreshSecret (config e)"
    and "jwt_exp j = Some x" and "x \<le> clock e"
  shows "verifyRefreshToken e token = Inl TokenExpiredError
         \<and> refreshToken_service e st token = (Inl InvalidTokenError, st)"
proof -
  have lib: "jwt_verify e token (jwtRefreshSecret (config e)) (issuer (config e)) None
               = Inl LibTokenExpiredError"
    using assms by (intro jwt_verify_expired [where x = x]) auto
  have v: "verifyRefreshToken e token = Inl TokenExpiredError"
    by (simp add: verifyRefreshToken_def lib)
  show ?thesis
    by (simp add: v refreshToken_service_def)
qed

theorem expired_refresh_token_witness:
  "verifyRefreshToken sampleEnv ''alice-old-refresh'' = Inl TokenExpiredError
   \<and> refreshToken_service sampleEnv sampleState ''alice-old-refresh''
       = (Inl InvalidTokenError, sampleState)"
  using expired_refresh_token_is_invalid
          [where e = sampleEnv and token = "''alice-old-refresh''" and j = sampleOldRefreshJwt
             and x = 500 and st = sampleState]
  by (simp add: sampleEnv_def sampleOldRefreshJwt_def sampleConfig_def)

theorem expired_refresh_token_counterexample:
  "fst (refreshToken_service sampleEnv sampleState ''alice-old-refresh'') = Inl InvalidTokenError
   \<and> jwt_decode sampleEnv ''alice-old-refresh'' = Some sampleOldRefreshJwt
   \<and> jwt_signedWith sampleOldRefreshJwt = jwtRefreshSecret (config sampleEnv)
   \<and> jwt_exp sampleOldRefreshJwt = Some 500 \<and> 500 \<le> clock sampleEnv"
proof -
  have lib: "jwt_verify sampleEnv ''alice-old-refresh'' (jwtRefreshSecret (config sampleEnv))
               (issuer (config sampleEnv)) None = Inl LibTokenExpiredError"
    by (simp add: jwt_verify_def sampleEnv_def sampleOldRefreshJwt_def sampleConfig_def)
  have "refreshToken_service sampleEnv sampleState ''alice-old-refresh''
          = (Inl InvalidTokenError, sampleState)"
    by (simp add: refreshToken_service_def verifyRefreshToken_def lib)
  then show ?thesis
    by (simp add: sampleEnv_def sampleOldRefreshJwt_def sampleConfig_def)
qed

section \<open>Properties of the orchestrator\<close>

lemma validateEmail_alice: "validateEmail ''alice@example.com'' = Inr ''alice@example.com''"
  by (simp add: validateEmail_def trim_def toLowerCase_def toLowerChar_def isUpperAZ_def
      isSpace_def matchesEmail_def Let_def isLocalChar_def isDomainChar_def isAlnum_def
      isAlpha_def isLowerAZ_def isDigit_def)

lemma validateEmail_bob: "validateEmail ''bob@example.com'' = Inr ''bob@example.com''"
  by (simp add: validateEmail_def trim_def toLowerCase_def toLowerChar_def isUpperAZ_def
      isSpace_def matchesEmail_def Let_def isLocalChar_def isDomainChar_def isAlnum_def
      isAlpha_def isLowerAZ_def isDigit_def)

lemma validateUserId_alice: "validateUserId aliceId = Inr aliceId"
  by (simp add: validateUserId_def aliceId_def matchesUuid_def uuidChar_def isHexDigit_def
      isDigit_def toLowerCase_def toLowerChar_def isUpperAZ_def upt_rec)

lemma validateUserId_bob: "validateUserId bobId = Inr bobId"
  by (simp add: validateUserId_def bobId_def matchesUuid_def uuidChar_def isHexDigit_def
      isDigit_def toLowerCase_def toLowerChar_def isUpperAZ_def upt_rec)

lemma ids_differ: "aliceId \<noteq> bobId"
  by (simp add: aliceId_def bobId_def)

lemma sendEmail_error:
  "sendEmail e st template recipient = (Inl err, st') \<Longrightarrow> err = GenericError"
  by (auto simp: sendEmail_def split: if_splits)

lemma sendEmail_users:
  "users (snd (sendEmail e st template recipient)) = users st"
  by (simp add: sendEmail_def)

lemma sendEmailSafe_users:
  "users (sendEmailSafe e st template recipient) = users st"
  by (simp add: sendEmailSafe_def sendEmail_def)

text \<open>
  C10. When \<open>resendVerificationEmail\<close> fails with \<open>NotFoundError\<close>, with an
  \<open>AuthenticationError\<close> or with \<open>RateLimitError\<close>, the \<open>users\<close> table is what it was
  before the call, so the identity's \<open>emailVerificationToken\<close> and
  \<open>emailVerificationExpires\<close> keep their values.
\<close>

theorem resend_failure_leaves_identity_unchanged:
  assumes "resendVerificationEmail e st userId = (Inl err, st')"
    and "err = NotFoundError \<or> (\<exists>m. err = AuthenticationError m) \<or> err = RateLimitError"
  shows "users st' = users st"
  using assms
  by (auto simp: resendVerificationEmail_def Let_def
      split: sum.splits option.splits if_splits prod.splits dest!: sendEmail_error)

theorem resend_failure_witness:
  "fst (resendVerificationEmail sampleEnv
          (sampleState\<lparr> redis := redis_setex 1190 (\<lambda>k. None) (email_resend_key aliceId) 60
                                      (RInt 1190000) \<rparr>) aliceId) = Inl RateLimitError
   \<and> users (snd (resendVerificationEmail sampleEnv
          (sampleState\<lparr> redis := redis_setex 1190 (\<lambda>k. None) (email_resend_key aliceId) 60
                                      (RInt 1190000) \<rparr>) aliceId)) = [alice, bob]"
proof -
  define st where
    "st = sampleState\<lparr> redis := redis_setex 1190 (\<lambda>k. None) (email_resend_key aliceId) 60
                                      (RInt 1190000) \<rparr>"
  have us: "users st = [alice, bob]"
    by (simp add: st_def sampleState_def)
  have found: "findById sampleEnv (users st) aliceId = Inr (Some alice)"
    by (simp add: us findById_def validateUserId_alice sampleEnv_def alice_def)
  have unverified: "\<not> isEmailVerified alice"
    by (simp add: alice_def)
  have limited: "checkEmailResend (clock sampleEnv) (redis st) aliceId =
                   (\<lparr> canResend = False, nextAllowedAt = Some 1250000 \<rparr>, redis st)"
    by (simp add: st_def checkEmailResend_def Let_def redis_get_def redis_live_def
        redis_setex_def sampleEnv_def Date_now_def EMAIL_RESEND_DELAY_def)
  have run: "resendVerificationEmail sampleEnv st aliceId = (Inl RateLimitError, st)"
    by (simp add: resendVerificationEmail_def found unverified limited)
  have "users (snd (resendVerificationEmail sampleEnv st aliceId)) = users st"
    using resend_failure_leaves_identity_unchanged
            [of sampleEnv st aliceId RateLimitError
               "snd (resendVerificationEmail sampleEnv st aliceId)"]
      run by simp
  then show ?thesis using run us unfolding st_def by simp
qed

lemma validateEmail_malformed: "validateEmail ''who!@example.com'' = Inl ValidationError"
  by (simp add: validateEmail_def trim_def toLowerCase_def toLowerChar_def isUpperAZ_def
      isSpace_def matchesEmail_def Let_def isLocalChar_def isDomainChar_def isAlnum_def
      isAlpha_def isLowerAZ_def isDigit_def)

lemma forgotPassword_valid_email:
  assumes "validateEmail a = Inr v" and "\<not> db_fails e OpFindByEmail"
  shows "fst (forgotPassword e st a) = Inr ()"
  using assms
  by (simp add: forgotPassword_def findByEmail_def split: option.splits prod.splits sum.splits)

lemma forgotPassword_logs_failure:
  assumes "validateEmail a = Inr v" and "\<not> db_fails e OpFindByEmail"
    and "find (\<lambda>x. email x = v) (users st) = Some u"
    and "fst (forgotPassword_try e st u) = Inl err"
  shows "logs (snd (forgotPassword e st a))
           = logs (snd (forgotPassword_try e st u)) @ [''Password reset email failed:'']"
proof -
  obtain st1 where t: "forgotPassword_try e st u = (Inl err, st1)"
    using assms(4) by (cases "forgotPassword_try e st u") auto
  show ?thesis
    using assms(1-3) by (simp add: forgotPassword_def findByEmail_def t)
qed

text \<open>
  C7. \<open>forgotPassword\<close> looks the identity up before its \<open>try\<close>: an input that
  \<open>validateEmail\<close> rejects leaves as a \<open>ValidationError\<close>, as the unknown address
  \<open>who!@example.com\<close> does while Alice's address gets the success response. For inputs
  that pass the validation and a lookup that does not fail, the two runs of the claim
  both return normally, whatever fails while the reset token is persisted or the reset
  email is sent (each run has its own environment, so any of those may fail in either);
  such a failure adds one line to the log and nothing else.
\<close>

theorem forgotPassword_uniform_for_valid_emails:
  assumes "validateEmail a1 = Inr v1" and "validateEmail a2 = Inr v2"
    and "\<not> db_fails e1 OpFindByEmail" and "\<not> db_fails e2 OpFindByEmail"
  shows "fst (forgotPassword e1 st1 a1) = Inr ()
         \<and> fst (forgotPassword e2 st2 a2) = fst (forgotPassword e1 st1 a1)
         \<and> (find (\<lambda>x. email x = v1) (users st1) = Some u
              \<and> fst (forgotPassword_try e1 st1 u) = Inl err
            \<longrightarrow> logs (snd (forgotPassword e1 st1 a1))
                  = logs (snd (forgotPassword_try e1 st1 u)) @ [''Password reset email failed:''])"
  using forgotPassword_valid_email [OF assms(1) assms(3), of st1]
    forgotPassword_valid_email [OF assms(2) assms(4), of st2]
    forgotPassword_logs_failure [OF assms(1) assms(3), of st1 u err]
  by simp

lemma validateEmail_nobody: "validateEmail ''nobody@example.com'' = Inr ''nobody@example.com''"
  by (simp add: validateEmail_def trim_def toLowerCase_def toLowerChar_def isUpperAZ_def
      isSpace_def matchesEmail_def Let_def isLocalChar_def isDomainChar_def isAlnum_def
      isAlpha_def isLowerAZ_def isDigit_def)

theorem forgotPassword_uniform_witness:
  "fst (forgotPassword (sampleEnv\<lparr> db_fails := (\<lambda>operation. operation = OpUpdate),
                                   email_fails := True \<rparr>) sampleState ''alice@example.com'')
     = Inr ()
   \<and> fst (forgotPassword sampleEnv sampleState ''nobody@example.com'')
     = fst (forgotPassword (sampleEnv\<lparr> db_fails := (\<lambda>operation. operation = OpUpdate),
                                       email_fails := True \<rparr>) sampleState ''alice@example.com'')
   \<and> find (\<lambda>u. email u = ''alice@example.com'') (users sampleState) = Some alice
   \<and> find (\<lambda>u. email u = ''nobody@example.com'') (users sampleState) = None
   \<and> logs (snd (forgotPassword (sampleEnv\<lparr> db_fails := (\<lambda>operation. operation = OpUpdate),
                                       email_fails := True \<rparr>) sampleState ''alice@example.com''))
     = [''Password reset email failed:'']"
proof -
  define e1 where
    "e1 = sampleEnv\<lparr> db_fails := (\<lambda>operation. operation = OpUpdate), email_fails := True \<rparr>"
  have db1: "\<not> db_fails e1 OpFindByEmail" and db2: "\<not> db_fails sampleEnv OpFindByEmail"
    by (simp_all add: e1_def sampleEnv_def)
  have known: "find (\<lambda>u. email u = ''alice@example.com'') (users sampleState) = Some alice"
    and unknown: "find (\<lambda>u. email u = ''nobody@example.com'') (users sampleState) = None"
    by (simp_all add: sampleState_def alice_def bob_def)
  have failing: "forgotPassword_try e1 sampleState alice = (Inl DatabaseError, sampleState)"
    by (simp add: forgotPassword_try_def Let_def update_def validateUserId_alice e1_def alice_def)
  have nolog: "logs sampleState = []"
    by (simp add: sampleState_def)
  show ?thesis
    using forgotPassword_uniform_for_valid_emails
            [OF validateEmail_alice validateEmail_nobody db1 db2,
             of sampleState sampleState alice DatabaseError]
      known unknown failing nolog
    unfolding e1_def by simp
qed

theorem forgotPassword_malformed_counterexample:
  "fst (forgotPassword sampleEnv sampleState ''who!@example.com'') = Inl ValidationError
   \<and> fst (forgotPassword sampleEnv sampleState ''alice@example.com'') = Inr ()
   \<and> emailTaken (users sampleState) ''alice@example.com''
   \<and> \<not> emailTaken (users sampleState) ''who!@example.com''"
proof -
  have bad: "fst (forgotPassword sampleEnv sampleState ''who!@example.com'') = Inl ValidationError"
    by (simp add: forgotPassword_def findByEmail_def validateEmail_malformed)
  have good: "fst (forgotPassword sampleEnv sampleState ''alice@example.com'') = Inr ()"
    by (rule forgotPassword_valid_email [OF validateEmail_alice]) (simp add: sampleEnv_def)
  show ?thesis
    using bad good by (simp add: emailTaken_def sampleState_def alice_def bob_def)
qed

section \<open>Properties of the Google login\<close>

lemma setex_logged_users: "users (setex_logged e st key ttl v msg) = users st"
  by (simp add: setex_logged_def)

lemma generateAccessToken_users:
  "users (snd (generateAccessToken e st sid payload)) = users st"
  by (simp add: generateAccessToken_def setex_logged_users split: option.splits)

lemma generateRefreshToken_users:
  "users (snd (generateRefreshToken e st sid payload)) = users st"
  by (simp add: generateRefreshToken_def setex_logged_users split: option.splits)

lemma generateTokens_users:
  "users (snd (generateTokens e st k userId addr)) = users st"
proof -
  obtain ra sa where a: "generateAccessToken e st (randomHex e k)
      \<lparr> p_userId = userId, p_email = Some addr, p_iat = Some (Date_now (clock e) div 1000),
        p_exp = Some (Date_now (clock e) div 1000 + 15 * 60) \<rparr> = (ra, sa)"
    by (cases "generateAccessToken e st (randomHex e k)
      \<lparr> p_userId = userId, p_email = Some addr, p_iat = Some (Date_now (clock e) div 1000),
        p_exp = Some (Date_now (clock e) div 1000 + 15 * 60) \<rparr>") auto
  have ua: "users sa = users st"
    using generateAccessToken_users [of e st "randomHex e k"] a by (metis snd_conv)
  obtain rb sb where b: "generateRefreshToken e sa (randomHex e (k + 1))
      \<lparr> p_userId = userId, p_email = Some addr, p_iat = Some (Date_now (clock e) div 1000),
        p_exp = Some (Date_now (clock e) div 1000 + 15 * 60) \<rparr> = (rb, sb)"
    by (cases "generateRefreshToken e sa (randomHex e (k + 1))
      \<lparr> p_userId = userId, p_email = Some addr, p_iat = Some (Date_now (clock e) div 1000),
        p_exp = Some (Date_now (clock e) div 1000 + 15 * 60) \<rparr>") auto
  have ub: "users sb = users sa"
    using generateRefreshToken_users [of e sa "randomHex e (k + 1)"] b by (metis snd_conv)
  show ?thesis
    using a b ua ub
    by (cases ra; cases rb) (simp_all add: generateTokens_def Let_def)
qed

lemma update_plain:
  assumes "validateUserId i = Inr v" and "\<not> db_fails e OpUpdate" and "set_googleId p = None"
  shows "update e us i p =
           Inr (find (\<lambda>u. user_id u = v)
                  (map (\<lambda>u. if user_id u = v then applyPatch (Date_now (clock e)) p u else u) us),
                map (\<lambda>u. if user_id u = v then applyPatch (Date_now (clock e)) p u else u) us)"
proof -
  have clean: "p\<lparr> set_googleId := map_option sanitizeGoogleId (set_googleId p) \<rparr> = p"
    using assms(3) by simp
  have "update e us i p =
          (let cleanData = p;
               us' = map (\<lambda>u. if user_id u = v
                               then applyPatch (Date_now (clock e)) cleanData u else u) us
           in if db_fails e OpUpdate then Inl DatabaseError
              else if list_ex (\<lambda>u. user_id u = v) us
                      \<and> (case set_googleId cleanData of
                            None \<Rightarrow> False
                          | Some g \<Rightarrow> googleIdTakenByOther us v g)
                then Inl DatabaseError
              else Inr (find (\<lambda>u. user_id u = v) us', us'))"
    unfolding update_def clean by (simp only: assms(1) sum.case)
  then show ?thesis
    by (simp add: Let_def assms(2,3))
qed

















section \<open>Properties of the login lockout\<close>

lemma wrong_password_rejected:
  "compare (argon2_verify sampleEnv) (argon2_needsRehash sampleEnv)
     (login_password wrongLogin) ''argon2/correct horse'' = Inr False"
  by (simp add: compare_def verify_def verify_body_def sampleEnv_def wrongLogin_def)

lemma handleFailedLogin_sample:
  "handleFailedLogin (sampleEnv\<lparr> clock := t \<rparr>) (lockoutState n upd) aliceId
     = (Inr (), lockoutState (n + 1) (Date_now t))"
proof -
  have inc: "incrementLoginAttempts (sampleEnv\<lparr> clock := t \<rparr>) (users (lockoutState n upd)) aliceId
               = Inr (users (lockoutState (n + 1) (Date_now t)))"
    by (simp add: incrementLoginAttempts_def validateUserId_alice lockoutState_def sampleEnv_def
        alice_def bob_def ids_differ [symmetric])
  have st: "lockoutState n upd\<lparr> users := users (lockoutState (n + 1) (Date_now t)) \<rparr>
              = lockoutState (n + 1) (Date_now t)"
    by (simp add: lockoutState_def)
  have chk: "checkLoginAttempts t (redis (lockoutState (n + 1) (Date_now t))) aliceId
             = \<lparr> canAttempt = True, attemptsRemaining = Some 5, lockedUntil = None \<rparr>"
    by (simp add: checkLoginAttempts_def Let_def attemptCountOf_def redis_get_def redis_live_def
        lockoutState_def sampleState_def MAX_LOGIN_ATTEMPTS_def)
  show ?thesis
    by (simp add: handleFailedLogin_def inc st chk Let_def)
qed

lemma loginUser_wrong_password_sample:
  "loginUser (sampleEnv\<lparr> clock := t \<rparr>) (lockoutState n upd) wrongLogin
     = (Inl (AuthenticationError MSG_INVALID_CREDENTIALS), lockoutState (n + 1) (Date_now t))"
proof -
  let ?a = "alice\<lparr> loginAttempts := n, updatedAt := upd \<rparr>"
  have found: "findByEmail (sampleEnv\<lparr> clock := t \<rparr>) (users (lockoutState n upd))
                 (login_email wrongLogin) = Inr (Some ?a)"
    by (simp add: findByEmail_def wrongLogin_def validateEmail_alice sampleEnv_def
        lockoutState_def alice_def)
  have fields: "authProvider ?a = Local" "password ?a = Some ''argon2/correct horse''"
    "user_id ?a = aliceId" "lockedUntil_user ?a = None"
    by (simp_all add: alice_def)
  show ?thesis
    by (simp add: loginUser_def found fields checkAccountStatus_def laterThan_def
        wrong_password_rejected handleFailedLogin_sample)
qed

lemma loginRun_wrong_password_sample:
  "loginRun sampleEnv (lockoutState n upd) wrongLogin ts
     = (replicate (length ts) (Inl (AuthenticationError MSG_INVALID_CREDENTIALS)),
        lockoutState (n + int (length ts)) (if ts = [] then upd else Date_now (last ts)))"
proof (induction ts arbitrary: n upd)
  case Nil
  then show ?case by simp
next
  case (Cons t ts)
  have "n + 1 + int (length ts) = n + int (length (t # ts))" by simp
  then show ?case
    by (simp add: loginUser_wrong_password_sample Cons.IH algebra_simps)
qed

text \<open>
  C2. The orchestrator's \<open>handleFailedLogin\<close> increments the \<open>loginAttempts\<close> column
  and then asks the rate limiter, whose counter lives under the store's
  \<open>login_attempts:\<close> key; nothing in the login path calls \<open>recordFailedLogin\<close>, so
  that counter stays absent and the lock branch is never taken. Six wrong passwords in
  a row for Alice all end in the generic \<open>AuthenticationError\<close>; afterwards her row
  counts six attempts, has no \<open>lockedUntil\<close>, and the store has no counter for her.
\<close>

theorem six_wrong_passwords_never_lock:
  "loginRun sampleEnv (lockoutState 0 100000) wrongLogin [1200, 1201, 1202, 1203, 1204, 1205]
     = (replicate 6 (Inl (AuthenticationError MSG_INVALID_CREDENTIALS)),
        lockoutState 6 1205000)
   \<and> map loginAttempts (users (lockoutState 6 1205000)) = [6, 0]
   \<and> map lockedUntil_user (users (lockoutState 6 1205000)) = [None, None]
   \<and> redis_get 1205 (redis (lockoutState 6 1205000)) (login_attempts_key aliceId) = None"
proof -
  have run: "loginRun sampleEnv (lockoutState 0 100000) wrongLogin
               [1200, 1201, 1202, 1203, 1204, 1205]
             = (replicate 6 (Inl (AuthenticationError MSG_INVALID_CREDENTIALS)),
                lockoutState 6 1205000)"
    by (rule trans [OF loginRun_wrong_password_sample])
      (simp add: Date_now_def eval_nat_numeral)
  show ?thesis
    unfolding run
    by (simp add: lockoutState_def sampleState_def alice_def bob_def redis_get_def redis_live_def)
qed

section \<open>The password-or-Google invariant\<close>

lemma generateTokens_users_eq:
  "generateTokens e st k userId addr = (r, st1) \<Longrightarrow> users st1 = users st"
  using generateTokens_users [of e st k userId addr] by simp

lemma applyPatch_inv:
  "set_password p = None \<Longrightarrow> passwordXorGoogle (applyPatch now p u) = passwordXorGoogle u"
  by (simp add: passwordXorGoogle_def applyPatch_def)

lemma update_inv:
  assumes "update e us i p = Inr (r, us')" and "set_password p = None"
  shows "list_all passwordXorGoogle us' = list_all passwordXorGoogle us"
proof -
  let ?c = "p\<lparr> set_googleId := map_option sanitizeGoogleId (set_googleId p) \<rparr>"
  have pc: "set_password ?c = None" using assms(2) by simp
  obtain v where us': "us' = map (\<lambda>u. if user_id u = v
                                 then applyPatch (Date_now (clock e)) ?c u else u) us"
    using assms(1) by (auto simp: update_def Let_def split: sum.splits if_splits)
  show ?thesis
    unfolding us' by (induction us) (simp_all add: applyPatch_inv [OF pc])
qed

lemma create_inv:
  assumes "create e us d = Inr (u, us')"
    and "(new_password d \<noteq> None) \<noteq> (new_authProvider d = Google)"
    and "list_all passwordXorGoogle us"
  shows "list_all passwordXorGoogle us'"
  using assms
  by (auto simp: create_def Let_def passwordXorGoogle_def split: sum.splits if_splits)

lemma incrementLoginAttempts_inv:
  assumes "incrementLoginAttempts e us i = Inr us'"
  shows "list_all passwordXorGoogle us' = list_all passwordXorGoogle us"
proof -
  obtain v where us': "us' = map (\<lambda>u. if user_id u = v
         then u\<lparr> loginAttempts := loginAttempts u + 1, updatedAt := Date_now (clock e) \<rparr>
         else u) us"
    using assms(1) by (auto simp: incrementLoginAttempts_def split: sum.splits if_splits)
  show ?thesis
    unfolding us' by (induction us) (simp_all add: passwordXorGoogle_def)
qed

lemma lockAccount_inv:
  assumes "lockAccount e us i until = Inr us'"
  shows "list_all passwordXorGoogle us' = list_all passwordXorGoogle us"
proof -
  obtain v where us': "us' = map (\<lambda>u. if user_id u = v
         then u\<lparr> lockedUntil_user := Some until, updatedAt := Date_now (clock e) \<rparr>
         else u) us"
    using assms(1) by (auto simp: lockAccount_def split: sum.splits if_splits)
  show ?thesis
    unfolding us' by (induction us) (simp_all add: passwordXorGoogle_def)
qed

lemma handleFailedLogin_inv:
  "handleFailedLogin e st i = (r, st1) \<Longrightarrow>
     list_all passwordXorGoogle (users st1) = list_all passwordXorGoogle (users st)"
  by (auto simp: handleFailedLogin_def Let_def incrementLoginAttempts_inv lockAccount_inv
      split: sum.splits option.splits if_splits)

lemma loginUser_inv:
  assumes "list_all passwordXorGoogle (users st)"
  shows "list_all passwordXorGoogle (users (snd (loginUser e st req)))"
  using assms
  by (auto simp: loginUser_def sendEmailSafe_users noPatch_def handleFailedLogin_inv update_inv
      split: sum.splits option.splits if_splits prod.splits
      dest!: generateTokens_users_eq)

lemma registerUser_inv:
  assumes "list_all passwordXorGoogle (users st)"
  shows "list_all passwordXorGoogle (users (snd (registerUser e st req)))"
proof -
  have created: "\<And>d u us1. create e (users st) d = Inr (u, us1) \<Longrightarrow>
      new_password d \<noteq> None \<Longrightarrow> new_authProvider d = Local \<Longrightarrow>
      list_all passwordXorGoogle us1"
    using assms by (auto elim!: create_inv)
  show ?thesis
    using assms
    by (auto simp: registerUser_def Let_def sendEmailSafe_users noPatch_def update_inv
        split: sum.splits option.splits prod.splits
        dest!: generateTokens_users_eq created)
qed

lemma verifyEmail_inv:
  assumes "list_all passwordXorGoogle (users st)"
  shows "list_all passwordXorGoogle (users (snd (verifyEmail e st token)))"
  using assms
  by (auto simp: verifyEmail_def sendEmailSafe_users noPatch_def update_inv
      split: sum.splits prod.splits)

lemma forgotPassword_inv:
  assumes "list_all passwordXorGoogle (users st)"
  shows "list_all passwordXorGoogle (users (snd (forgotPassword e st a)))"
  using assms
  by (auto simp: forgotPassword_def forgotPassword_try_def Let_def sendEmail_def noPatch_def
      update_inv split: sum.splits option.splits prod.splits if_splits)

lemma refreshToken_service_inv:
  assumes "list_all passwordXorGoogle (users st)"
  shows "list_all passwordXorGoogle (users (snd (refreshToken_service e st token)))"
  using assms
  by (auto simp: refreshToken_service_def noPatch_def update_inv
      split: sum.splits option.splits prod.splits
      dest!: generateTokens_users_eq)

lemma logoutUser_inv:
  assumes "list_all passwordXorGoogle (users st)"
  shows "list_all passwordXorGoogle (users (snd (logoutUser e st userId)))"
  using assms
  by (auto simp: logoutUser_def noPatch_def update_inv split: sum.splits prod.splits)

lemma resendVerificationEmail_inv:
  assumes "list_all passwordXorGoogle (users st)"
  shows "list_all passwordXorGoogle (users (snd (resendVerificationEmail e st userId)))"
  using assms
  by (auto simp: resendVerificationEmail_def Let_def sendEmail_def noPatch_def update_inv
      split: sum.splits option.splits prod.splits if_splits)

lemma findOrCreateGoogleUser_inv:
  assumes "findOrCreateGoogleUser e us profile = Inr (r, us1)"
    and "list_all passwordXorGoogle us"
  shows "list_all passwordXorGoogle us1"
proof -
  have created: "\<And>d u us1. create e us d = Inr (u, us1) \<Longrightarrow>
      new_password d = None \<Longrightarrow> new_authProvider d = Google \<Longrightarrow>
      list_all passwordXorGoogle us1"
    using assms(2) by (auto elim!: create_inv)
  show ?thesis
    using assms
    by (auto simp: findOrCreateGoogleUser_def noPatch_def update_inv
        split: sum.splits option.splits prod.splits if_splits dest!: created)
qed

lemma authenticateWithGoogle_inv:
  assumes "list_all passwordXorGoogle (users st)"
  shows "list_all passwordXorGoogle (users (snd (authenticateWithGoogle e st code)))"
  using assms
  by (auto simp: authenticateWithGoogle_def noPatch_def update_inv
      split: sum.splits prod.splits
      dest!: generateTokens_users_eq findOrCreateGoogleUser_inv)

lemma inv_imp_localHasPassword:
  "list_all passwordXorGoogle us \<Longrightarrow> list_all localHasPassword us"
  by (induction us) (auto simp: passwordXorGoogle_def localHasPassword_def)

lemma update_password_local:
  assumes "update e us i p = Inr (r, us')" and "set_password p = Some (Some h)"
    and "list_all localHasPassword us"
  shows "list_all localHasPassword us'"
proof -
  let ?c = "p\<lparr> set_googleId := map_option sanitizeGoogleId (set_googleId p) \<rparr>"
  have pc: "set_password ?c = Some (Some h)" using assms(2) by simp
  obtain v where us': "us' = map (\<lambda>u. if user_id u = v
                                 then applyPatch (Date_now (clock e)) ?c u else u) us"
    using assms(1) by (auto simp: update_def Let_def split: sum.splits if_splits)
  have one: "\<And>u. localHasPassword (applyPatch (Date_now (clock e)) ?c u)"
    by (simp add: localHasPassword_def applyPatch_def pc)
  show ?thesis
    using assms(3) unfolding us' by (induction us) (simp_all add: one)
qed

lemma resetPassword_local:
  assumes "list_all passwordXorGoogle (users st)"
  shows "list_all localHasPassword (users (snd (resetPassword e st token newPassword)))"
proof -
  have weak: "list_all localHasPassword (users st)"
    by (rule inv_imp_localHasPassword [OF assms])
  have upd: "\<And>i p r us1 h. update e (users st) i p = Inr (r, us1) \<Longrightarrow>
      set_password p = Some (Some h) \<Longrightarrow> list_all localHasPassword us1"
    using weak by (auto elim!: update_password_local)
  show ?thesis
    using weak
    by (auto simp: resetPassword_def sendEmailSafe_users noPatch_def
        split: sum.splits prod.splits dest!: upd)
qed

lemma sampleState_inv: "list_all passwordXorGoogle (users sampleState)"
  by (simp add: sampleState_def passwordXorGoogle_def alice_def bob_def)

text \<open>Bob, the Google identity of the sample store, asks for a reset and redeems it.\<close>

lemma forgotPassword_bob:
  "forgotPassword sampleEnv sampleState ''bob@example.com'' =
     (Inr (),
      sampleState\<lparr> users := [alice, bob\<lparr> passwordResetToken := Some ''sha256/rnd0'',
                                          passwordResetExpires := Some 4800000,
                                          updatedAt := 1200000 \<rparr>],
                    outbox := [(''passwordReset'', ''bob@example.com'')] \<rparr>)"
proof -
  have found: "findByEmail sampleEnv (users sampleState) ''bob@example.com'' = Inr (Some bob)"
    by (simp add: findByEmail_def validateEmail_bob sampleEnv_def sampleState_def alice_def bob_def)
  have bid: "user_id bob = bobId" and bmail: "email bob = ''bob@example.com''"
    by (simp_all add: bob_def)
  have upd: "update sampleEnv (users sampleState) bobId
               (noPatch\<lparr> set_passwordResetToken := Some (Some (hashToken sampleEnv (randomHex sampleEnv 0))),
                         set_passwordResetExpires := Some (Some (getTokenExpiry sampleEnv Reset)) \<rparr>)
             = Inr (Some (bob\<lparr> passwordResetToken := Some ''sha256/rnd0'',
                                 passwordResetExpires := Some 4800000,
                                 updatedAt := 1200000 \<rparr>),
                    [alice, bob\<lparr> passwordResetToken := Some ''sha256/rnd0'',
                                  passwordResetExpires := Some 4800000,
                                  updatedAt := 1200000 \<rparr>])"
    by (simp add: update_def validateUserId_bob Let_def noPatch_def applyPatch_def hashToken_def
        getTokenExpiry_def Date_now_def sampleEnv_def sampleState_def alice_def bob_def ids_differ)
  show ?thesis
    by (simp add: forgotPassword_def found forgotPassword_try_def Let_def bid bmail upd
        sendEmail_def)
      (simp add: sampleEnv_def sampleState_def)
qed

lemma inv_by_credentials:
  "list_all passwordXorGoogle us
     = list_all (\<lambda>(p, a). (p \<noteq> None) \<noteq> (a = Google))
         (map (\<lambda>u. (password u, authProvider u)) us)"
  by (induction us) (simp_all add: passwordXorGoogle_def)

lemma resetPassword_bob:
  "map (\<lambda>u. (password u, authProvider u))
     (users (snd (resetPassword (sampleEnv\<lparr> clock := 1300 \<rparr>)
       (snd (forgotPassword sampleEnv sampleState ''bob@example.com''))
       ''rnd0'' ''N3w-passw0rd'')))
     = [(Some ''argon2/correct horse'', Local), (Some ''argon2/N3w-passw0rd'', Google)]"
proof -
  define bob1 where
    "bob1 = bob\<lparr> passwordResetToken := Some ''sha256/rnd0'',
                   passwordResetExpires := Some 4800000, updatedAt := 1200000 \<rparr>"
  define st1 where
    "st1 = sampleState\<lparr> users := [alice, bob1],
                         outbox := [(''passwordReset'', ''bob@example.com'')] \<rparr>"
  define e1 where "e1 = sampleEnv\<lparr> clock := 1300 \<rparr>"
  define p where
    "p = noPatch\<lparr> set_password := Some (Some ''argon2/N3w-passw0rd''),
                    set_passwordResetToken := Some None,
                    set_passwordResetExpires := Some None,
                    set_passwordChangedAt := Some (Some (Date_now (clock e1))),
                    set_loginAttempts := Some 0,
                    set_lockedUntil := Some None \<rparr>"
  define us2 where
    "us2 = map (\<lambda>u. if user_id u = bobId then applyPatch (Date_now (clock e1)) p u else u)
             [alice, bob1]"
  have fp: "snd (forgotPassword sampleEnv sampleState ''bob@example.com'') = st1"
    by (simp add: forgotPassword_bob st1_def bob1_def)
  have us1: "users st1 = [alice, bob1]"
    by (simp add: st1_def)
  have found: "findUserByToken e1 (users st1) ''rnd0'' Reset = Inr bob1"
    by (simp add: us1 findUserByToken_def findByPasswordResetToken_def hashToken_def laterThan_def
        e1_def sampleEnv_def Date_now_def alice_def bob1_def)
  have hashed: "hash e1 ''N3w-passw0rd'' = Inr ''argon2/N3w-passw0rd''"
    by (simp add: hash_def e1_def sampleEnv_def)
  have bid: "user_id bob1 = bobId"
    by (simp add: bob1_def bob_def)
  have db: "\<not> db_fails e1 OpUpdate"
    by (simp add: e1_def sampleEnv_def)
  have pg: "set_googleId p = None"
    by (simp add: p_def noPatch_def)
  have upd: "update e1 (users st1) bobId p = Inr (find (\<lambda>u. user_id u = bobId) us2, us2)"
    unfolding us1 us2_def by (rule update_plain [OF validateUserId_bob db pg])
  have creds: "map (\<lambda>u. (password u, authProvider u)) us2
                 = [(Some ''argon2/correct horse'', Local), (Some ''argon2/N3w-passw0rd'', Google)]"
    by (simp add: us2_def p_def noPatch_def applyPatch_def alice_def bob1_def bob_def ids_differ)
  have "users (snd (resetPassword e1 st1 ''rnd0'' ''N3w-passw0rd'')) = us2"
    using upd unfolding p_def
    by (simp add: resetPassword_def found hashed bid sendEmailSafe_users)
  then show ?thesis
    unfolding fp e1_def [symmetric] using creds by simp
qed

text \<open>
  C4. The invariant "exactly one of: a password hash is present, the provider is Google"
  is kept by every operation of the orchestrator except \<open>resetPassword\<close>, which
  stores the new hash on whichever identity redeems the reset token. After
  \<open>resetPassword\<close> every local identity still has a hash, but a Google identity can
  have one too: Bob, whose provider is Google, gets one through \<open>forgotPassword\<close>
  followed by \<open>resetPassword\<close>.
\<close>

theorem invariant_kept_except_by_resetPassword:
  assumes "list_all passwordXorGoogle (users st)"
  shows "list_all passwordXorGoogle (users (snd (registerUser e st registration)))
       \<and> list_all passwordXorGoogle (users (snd (loginUser e st login)))
       \<and> list_all passwordXorGoogle (users (snd (verifyEmail e st token)))
       \<and> list_all passwordXorGoogle (users (snd (forgotPassword e st addr)))
       \<and> list_all passwordXorGoogle (users (snd (refreshToken_service e st token)))
       \<and> list_all passwordXorGoogle (users (snd (logoutUser e st userId)))
       \<and> list_all passwordXorGoogle (users (snd (resendVerificationEmail e st userId)))
       \<and> list_all passwordXorGoogle (users (snd (authenticateWithGoogle e st code)))
       \<and> list_all localHasPassword (users (snd (resetPassword e st token newPassword)))"
  using registerUser_inv [OF assms] loginUser_inv [OF assms] verifyEmail_inv [OF assms]
    forgotPassword_inv [OF assms] refreshToken_service_inv [OF assms] logoutUser_inv [OF assms]
    resendVerificationEmail_inv [OF assms] authenticateWithGoogle_inv [OF assms]
    resetPassword_local [OF assms]
  by simp

theorem invariant_kept_witness:
  "list_all passwordXorGoogle (users sampleState)
   \<and> list_all passwordXorGoogle (users (snd (loginUser sampleEnv sampleState wrongLogin)))
   \<and> list_all passwordXorGoogle
         (users (snd (forgotPassword sampleEnv sampleState ''bob@example.com'')))
   \<and> list_all passwordXorGoogle
         (users (snd (authenticateWithGoogle sampleEnv sampleState ''code-from-alice'')))
   \<and> list_all localHasPassword
         (users (snd (resetPassword sampleEnv sampleState ''rnd0'' ''N3w-passw0rd'')))"
  using invariant_kept_except_by_resetPassword
          [OF sampleState_inv, of sampleEnv _ wrongLogin "''rnd0''" "''bob@example.com''" _
             "''code-from-alice''" "''N3w-passw0rd''"]
    sampleState_inv
  by simp

theorem google_identity_gets_password_counterexample:
  "list_all passwordXorGoogle (users sampleState)
   \<and> \<not> list_all passwordXorGoogle
         (users (snd (resetPassword (sampleEnv\<lparr> clock := 1300 \<rparr>)
            (snd (forgotPassword sampleEnv sampleState ''bob@example.com''))
            ''rnd0'' ''N3w-passw0rd'')))
   \<and> map password
         (users (snd (resetPassword (sampleEnv\<lparr> clock := 1300 \<rparr>)
            (snd (forgotPassword sampleEnv sampleState ''bob@example.com''))
            ''rnd0'' ''N3w-passw0rd'')))
       = [Some ''argon2/correct horse'', Some ''argon2/N3w-passw0rd'']
   \<and> map authProvider
         (users (snd (resetPassword (sampleEnv\<lparr> clock := 1300 \<rparr>)
            (snd (forgotPassword sampleEnv sampleState ''bob@example.com''))
            ''rnd0'' ''N3w-passw0rd'')))
       = [Local, Google]"
proof -
  let ?us = "users (snd (resetPassword (sampleEnv\<lparr> clock := 1300 \<rparr>)
            (snd (forgotPassword sampleEnv sampleState ''bob@example.com''))
            ''rnd0'' ''N3w-passw0rd''))"
  have creds: "map (\<lambda>u. (password u, authProvider u)) ?us
                 = [(Some ''argon2/correct horse'', Local), (Some ''argon2/N3w-passw0rd'', Google)]"
    by (rule resetPassword_bob)
  have broken: "\<not> list_all passwordXorGoogle ?us"
    unfolding inv_by_credentials creds by simp
  have pw: "map password ?us = map fst (map (\<lambda>u. (password u, authProvider u)) ?us)"
    by (simp add: comp_def)
  have pr: "map authProvider ?us = map snd (map (\<lambda>u. (password u, authProvider u)) ?us)"
    by (simp add: comp_def)
  show ?thesis
    using sampleState_inv broken pw pr unfolding creds by simp
qed

end
